theory Spec2Isabelle
  imports Complex_Main
begin

section \<open>Strings of the diagnostic page\<close>

text \<open>
  The page \<^verbatim>\<open>Diagnostic\<close> is TypeScript. A string is modelled as a \<^typ>\<open>string\<close> whose
  characters are the UTF-16 code units \<open>0..255\<close> (the Latin-1 range); strings with larger
  code units are outside the model.

  \<^verbatim>\<open>String.prototype.trim\<close> removes the code points WhiteSpace and LineTerminator of
  ECMAScript from both ends. In the Latin-1 range these are TAB, LF, VT, FF, CR, SPACE and
  NO-BREAK SPACE.
\<close>

definition isWhiteSpace :: "char \<Rightarrow> bool" where
  "isWhiteSpace c = ((of_char c :: nat) \<in> {9, 10, 11, 12, 13, 32, 160})"

definition trim :: "string \<Rightarrow> string" where
  "trim s = rev (dropWhile isWhiteSpace (rev (dropWhile isWhiteSpace s)))"

text \<open>
  \<^verbatim>\<open>String.prototype.toLowerCase\<close> maps every code unit on its own in the Latin-1 range:
  \<open>A..Z\<close> and the accented capitals \<open>U+00C0..U+00DE\<close> (without the multiplication sign
  \<open>U+00D7\<close>) move up by 32, everything else stays.
\<close>

definition toLowerChar :: "char \<Rightarrow> char" where
  "toLowerChar c =
     (let n = (of_char c :: nat)
      in if (65 \<le> n \<and> n \<le> 90) \<or> (192 \<le> n \<and> n \<le> 222 \<and> n \<noteq> 215)
         then char_of (n + 32) else c)"

definition toLowerCase :: "string \<Rightarrow> string" where
  "toLowerCase s = map toLowerChar s"

text \<open>
  The comparison of \<^verbatim>\<open>handleAnswerSubmit\<close>:
  \<^verbatim>\<open>userAnswer.trim().toLowerCase() === question.correctAnswer.toLowerCase()\<close>.
  Only the student's answer is trimmed.
\<close>

definition evaluateAnswer :: "string \<Rightarrow> string \<Rightarrow> bool" where
  "evaluateAnswer userAnswer correctAnswer =
     (toLowerCase (trim userAnswer) = toLowerCase correctAnswer)"

section \<open>Questions, responses, blockers\<close>

record question =
  questionText :: string
  correctAnswer :: string
  construct :: string
  difficultyLevel :: nat

record response =
  questionNumber :: nat
  questionText :: string
  userAnswer :: string
  correctAnswer :: string
  isCorrect :: bool
  construct :: string
  difficultyLevel :: nat

record blocker =
  blocker_name :: string
  error_count :: nat

section \<open>Blocker detection\<close>

text \<open>
  \<^verbatim>\<open>detectBlockers\<close> counts in \<^verbatim>\<open>const constructErrors: Record<string, number> = {}\<close>, an
  ordinary object whose prototype is \<^verbatim>\<open>Object.prototype\<close>. Its own properties are kept as
  an association list in creation order. A property value is a number (a count), or, when
  the key is the name of a property inherited from \<^verbatim>\<open>Object.prototype\<close>, a string:
  \<open>NativeText t n\<close> stands for the text \<open>t\<close> followed by \<open>n\<close> characters \<^verbatim>\<open>1\<close>, where \<open>t\<close>
  is what \<^verbatim>\<open>String\<close> makes of the inherited value. Such a text is not a numeric literal,
  so \<^verbatim>\<open>ToNumber\<close> maps it to \<^verbatim>\<open>NaN\<close>.
\<close>

datatype jsval = Count nat | NativeText string nat

type_synonym jsobject = "(string \<times> jsval) list"

text \<open>The properties of \<^verbatim>\<open>Object.prototype\<close> in a browser, each with its text.\<close>

definition objectPrototype :: "(string \<times> string) list" where
  "objectPrototype =
     [(''constructor'', ''function Object() { [native code] }''),
      (''__defineGetter__'', ''function __defineGetter__() { [native code] }''),
      (''__defineSetter__'', ''function __defineSetter__() { [native code] }''),
      (''hasOwnProperty'', ''function hasOwnProperty() { [native code] }''),
      (''__lookupGetter__'', ''function __lookupGetter__() { [native code] }''),
      (''__lookupSetter__'', ''function __lookupSetter__() { [native code] }''),
      (''isPrototypeOf'', ''function isPrototypeOf() { [native code] }''),
      (''propertyIsEnumerable'', ''function propertyIsEnumerable() { [native code] }''),
      (''toString'', ''function toString() { [native code] }''),
      (''valueOf'', ''function valueOf() { [native code] }''),
      (''__proto__'', ''[object Object]''),
      (''toLocaleString'', ''function toLocaleString() { [native code] }'')]"

text \<open>
  \<^verbatim>\<open>(constructErrors[k] || 0) + 1\<close>: an own count is incremented; an own text is truthy and
  \<^verbatim>\<open>+\<close> appends \<^verbatim>\<open>1\<close> to it; a missing key is looked up in the prototype, whose functions
  (and, for \<^verbatim>\<open>__proto__\<close>, the prototype object itself) are truthy and are turned into text
  by \<^verbatim>\<open>+\<close>; otherwise the value is \<^verbatim>\<open>undefined\<close>, \<^verbatim>\<open>|| 0\<close> gives \<open>0\<close> and the sum is \<open>1\<close>.
\<close>

definition incremented :: "jsobject \<Rightarrow> string \<Rightarrow> jsval" where
  "incremented obj k =
     (case map_of obj k of
        Some (Count n) \<Rightarrow> Count (n + 1)
      | Some (NativeText t n) \<Rightarrow> NativeText t (n + 1)
      | None \<Rightarrow>
          (case map_of objectPrototype k of
             Some t \<Rightarrow> NativeText t 1
           | None \<Rightarrow> Count 1))"

text \<open>
  \<^verbatim>\<open>constructErrors[k] = v\<close> for a primitive \<open>v\<close>: the accessor \<^verbatim>\<open>__proto__\<close> ignores a value
  that is not an object; an own property is overwritten in place; a new one is created
  last.
\<close>

definition assign :: "jsobject \<Rightarrow> string \<Rightarrow> jsval \<Rightarrow> jsobject" where
  "assign obj k v =
     (if k = ''__proto__'' then obj
      else if k \<in> set (map fst obj) then map (\<lambda>e. if fst e = k then (k, v) else e) obj
      else obj @ [(k, v)])"

definition constructErrors :: "response list \<Rightarrow> jsobject" where
  "constructErrors allResponses =
     foldl (\<lambda>obj r. assign obj (construct r) (incremented obj (construct r))) []
       (filter (\<lambda>r. \<not> isCorrect r) allResponses)"

text \<open>
  \<^verbatim>\<open>Object.entries\<close> lists the own properties whose keys are array indices (canonical
  decimal numerals below \<open>2^32 - 1\<close>) first, in ascending numeric order, and the other
  keys after them in creation order.
\<close>

definition isDigit :: "char \<Rightarrow> bool" where
  "isDigit c = (48 \<le> (of_char c :: nat) \<and> (of_char c :: nat) \<le> 57)"

definition indexValue :: "string \<Rightarrow> int" where
  "indexValue s = foldl (\<lambda>n c. 10 * n + ((of_char c :: int) - 48)) 0 s"

definition isArrayIndex :: "string \<Rightarrow> bool" where
  "isArrayIndex s =
     (s \<noteq> [] \<and> list_all isDigit s \<and> (s = ''0'' \<or> hd s \<noteq> CHR ''0'')
      \<and> indexValue s < 4294967295)"

definition Object_entries :: "jsobject \<Rightarrow> (string \<times> jsval) list" where
  "Object_entries obj =
     sort_key (\<lambda>e. indexValue (fst e)) (filter (\<lambda>e. isArrayIndex (fst e)) obj)
     @ filter (\<lambda>e. \<not> isArrayIndex (fst e)) obj"

text \<open>
  \<^verbatim>\<open>.filter(([_, count]) => count >= 2).map(([construct, count]) => ({blocker_name:
  construct, error_count: count}))\<close>: a comparison with \<^verbatim>\<open>NaN\<close> is false.
\<close>

fun promote :: "string \<times> jsval \<Rightarrow> blocker option" where
  "promote (k, Count n) =
     (if 2 \<le> n then Some \<lparr>blocker_name = k, error_count = n\<rparr> else None)"
| "promote (k, NativeText t n) = None"

definition detectedBlockers :: "response list \<Rightarrow> blocker list" where
  "detectedBlockers allResponses =
     List.map_filter promote (Object_entries (constructErrors allResponses))"

section \<open>Severity\<close>

datatype severity = SeverityNone | Mild | Moderate | Severe

text \<open>
  \<^verbatim>\<open>allResponses.filter(r => !r.isCorrect).length / allResponses.length\<close> is a division of
  doubles; \<open>0 / 0\<close> is \<^verbatim>\<open>NaN\<close>, modelled as \<open>None\<close>, and every comparison with it is false.
  The quotient is kept exact: the division is correctly rounded, and a quotient \<open>i / n\<close>
  with \<open>n < 2^50\<close> that differs from \<open>3/5\<close>, \<open>2/5\<close> or \<open>1/5\<close> differs from it by at least
  \<open>1 / (5 n)\<close>, more than the spacing of the doubles there, so each comparison with the
  literals \<^verbatim>\<open>0.6\<close>, \<^verbatim>\<open>0.4\<close>, \<^verbatim>\<open>0.2\<close> has the outcome of the exact one.
\<close>

definition errorRate :: "response list \<Rightarrow> rat option" where
  "errorRate allResponses =
     (if length allResponses = 0 then None
      else Some (of_nat (length (filter (\<lambda>r. \<not> isCorrect r) allResponses))
                 / of_nat (length allResponses)))"

fun exceeds :: "rat option \<Rightarrow> rat \<Rightarrow> bool" where
  "exceeds None c = False"
| "exceeds (Some x) c = (x > c)"

definition overallSeverity :: "blocker list \<Rightarrow> response list \<Rightarrow> severity" where
  "overallSeverity blockers allResponses =
     (let rate = errorRate allResponses
      in if length blockers \<ge> 3 \<or> exceeds rate (6 / 10) then Severe
         else if length blockers \<ge> 2 \<or> exceeds rate (4 / 10) then Moderate
         else if length blockers \<ge> 1 \<or> exceeds rate (2 / 10) then Mild
         else SeverityNone)"

section \<open>The external store\<close>

text \<open>
  The tables of the migration (\<^verbatim>\<open>students\<close>, \<^verbatim>\<open>diagnostic_tests\<close>, \<^verbatim>\<open>test_responses\<close>,
  \<^verbatim>\<open>blockers_detected\<close>, \<^verbatim>\<open>remediation_roadmaps\<close>) with the columns the page writes. A
  primary key \<^verbatim>\<open>UUID DEFAULT uuid_generate_v4()\<close> is a fresh natural number, taken from
  the counter \<open>next_id\<close>. A roadmap is kept as the JSON text of the value that
  \<^verbatim>\<open>response.json()\<close> returned (its \<^verbatim>\<open>JSON.stringify\<close>); the column \<^verbatim>\<open>roadmap_data\<close> is
  \<^verbatim>\<open>JSONB NOT NULL\<close>, so the store refuses the value \<^verbatim>\<open>null\<close>, whose text is \<^verbatim>\<open>null\<close>.
\<close>

datatype test_status = In_progress | Completed

type_synonym roadmap_data = string

record students_row =
  row_id :: nat
  teacher_id :: string
  name :: string
  age :: int

record diagnostic_tests_row =
  row_id :: nat
  student_id :: nat
  status :: test_status
  age_at_test :: int
  overall_severity :: severity

record test_responses_row =
  test_id :: nat
  question_number :: nat
  question_text :: string
  user_answer :: string
  correct_answer :: string
  is_correct :: bool
  construct_tested :: string
  difficulty_level :: nat

record blockers_detected_row =
  test_id :: nat
  blocker_name :: string
  error_count :: nat
  is_confirmed :: bool

record remediation_roadmaps_row =
  test_id :: nat
  roadmap_data :: roadmap_data

record database =
  students :: "students_row list"
  diagnostic_tests :: "diagnostic_tests_row list"
  test_responses :: "test_responses_row list"
  blockers_detected :: "blockers_detected_row list"
  remediation_roadmaps :: "remediation_roadmaps_row list"
  next_id :: nat

section \<open>The session\<close>

datatype stage =
  Stage_age | Stage_student_info | Stage_main_test | Stage_confirmatory | Stage_roadmap

text \<open>
  The state variables of the component \<^verbatim>\<open>Diagnostic\<close> (its \<^verbatim>\<open>useState\<close> hooks). \<open>age\<close> is
  \<^verbatim>\<open>number | null\<close>, set from \<^verbatim>\<open>parseInt\<close>: \<open>None\<close> stands for \<^verbatim>\<open>null\<close> and \<^verbatim>\<open>NaN\<close>.
\<close>

record diagnostic =
  stage :: stage
  age :: "int option"
  studentName :: string
  studentId :: "nat option"
  testId :: "nat option"
  currentQuestion :: nat
  questions :: "question list"
  responses :: "response list"
  userAnswer :: string
  loading :: bool
  blockers :: "blocker list"
  roadmap :: "roadmap_data option"

text \<open>
  What a handler sends out, in order: notices to the user (\<^verbatim>\<open>toast\<close>: title and
  description), \<^verbatim>\<open>console.error\<close> lines, \<^verbatim>\<open>navigate\<close>, and the requests to the three
  generation functions with their JSON bodies.
\<close>

datatype request =
  Generate_question "int option" nat
| Generate_confirmatory_test "int option" string
| Generate_roadmap "int option" "blocker list" "response list"

datatype effect =
  Toast string string
| Console_error string string
| Navigate string
| Fetch request

record world =
  ui :: diagnostic
  db :: database
  effects :: "effect list"

text \<open>
  What the outside answers during one run of a handler. A \<^verbatim>\<open>fetch\<close> is rejected (network
  failure, with the message of the engine's error) or resolves to a response with a status
  and a body; \<^verbatim>\<open>response.json()\<close> returns the value of a body that is JSON and throws for
  any other body an error whose message is the engine's (\<open>Not_json\<close>). The body of a question
  batch is a JSON array of questions or a single question object. A write to the store
  succeeds or returns an error with a message; a row that breaks a constraint of its table
  is refused with the message of the store (\<open>store_refusal\<close>).
  \<^verbatim>\<open>supabase.auth.getSession()\<close> gives the signed-in user or nothing. Spreading a value that
  is not iterable throws a \<^verbatim>\<open>TypeError\<close> whose message is the engine's (\<open>not_iterable\<close>).
\<close>

datatype questions_json = Json_array "question list" | Json_object question

datatype 'j body = Not_json string | Json 'j

datatype 'j fetched = Rejected string | Response nat "'j body"

record environment =
  auth_session :: "string option"
  store_refusal :: string
  not_iterable :: string
  students_insert_error :: "string option"
  diagnostic_tests_insert_error :: "string option"
  generate_question :: "questions_json fetched"
  test_responses_insert_error :: "string option"
  blockers_detected_insert_error :: "string option"
  generate_confirmatory_test :: "questions_json fetched"
  generate_roadmap :: "roadmap_data fetched"
  remediation_roadmaps_insert_error :: "string option"
  diagnostic_tests_update_error :: "string option"
  blockers_detected_update_error :: "string option"

definition ok :: "nat \<Rightarrow> bool" where
  "ok code = (200 \<le> code \<and> code \<le> 299)"

definition MAIN_TEST_LENGTH :: nat where
  "MAIN_TEST_LENGTH = 10"

definition CONFIRMATORY_LENGTH :: nat where
  "CONFIRMATORY_LENGTH = 5"

definition emit :: "effect \<Rightarrow> world \<Rightarrow> world" where
  "emit e w = w\<lparr>effects := effects w @ [e]\<rparr>"

definition setLoading :: "bool \<Rightarrow> world \<Rightarrow> world" where
  "setLoading b w = w\<lparr>ui := (ui w)\<lparr>loading := b\<rparr>\<rparr>"

definition setStage :: "stage \<Rightarrow> world \<Rightarrow> world" where
  "setStage st w = w\<lparr>ui := (ui w)\<lparr>stage := st\<rparr>\<rparr>"

text \<open>The \<^verbatim>\<open>catch\<close> blocks of the three asynchronous handlers, each followed by \<^verbatim>\<open>finally\<close>.\<close>

definition catch_toast :: "string \<Rightarrow> world \<Rightarrow> world" where
  "catch_toast message w = setLoading False (emit (Toast ''Error'' message) w)"

subsection \<open>Age and enrolment\<close>

definition handleAgeSubmit :: "world \<Rightarrow> world" where
  "handleAgeSubmit w =
     (case diagnostic.age (ui w) of
        None \<Rightarrow> emit (Toast ''Invalid Age'' ''Please enter an age of 5 or above.'') w
      | Some a \<Rightarrow>
          if a = 0 \<or> a < 5
          then emit (Toast ''Invalid Age'' ''Please enter an age of 5 or above.'') w
          else setStage Stage_student_info w)"

text \<open>
  The two inserts of \<^verbatim>\<open>handleStudentInfoSubmit\<close>. The column \<^verbatim>\<open>age\<close> is
  \<^verbatim>\<open>INTEGER NOT NULL CHECK (age >= 5)\<close> and \<^verbatim>\<open>age_at_test\<close> is \<^verbatim>\<open>INTEGER NOT NULL\<close>, where
  \<^verbatim>\<open>INTEGER\<close> holds the 32-bit signed integers: the store refuses a row that breaks this,
  and otherwise answers as the environment says.
\<close>

definition isInteger :: "int \<Rightarrow> bool" where
  "isInteger n = (- 2147483648 \<le> n \<and> n \<le> 2147483647)"

text \<open>
  The answer of the store to a write: the error of the environment if there is one, a
  refusal if the rows break a constraint of the table, and success otherwise.
\<close>

definition store_answer :: "string option \<Rightarrow> string \<Rightarrow> bool \<Rightarrow> string option" where
  "store_answer outcome refusal valid =
     (case outcome of
        Some message \<Rightarrow> Some message
      | None \<Rightarrow> if valid then None else Some refusal)"

definition insert_student ::
  "string option \<Rightarrow> string \<Rightarrow> string \<Rightarrow> int option \<Rightarrow> string \<Rightarrow> database
     \<Rightarrow> string + nat \<times> database" where
  "insert_student outcome refusal nm a teacher d =
     (case outcome of
        Some message \<Rightarrow> Inl message
      | None \<Rightarrow>
          (case a of
             None \<Rightarrow> Inl refusal
           | Some n \<Rightarrow>
               if \<not> isInteger n \<or> n < 5 then Inl refusal
               else Inr (next_id d,
                         d\<lparr>students := students d @
                              [\<lparr>students_row.row_id = next_id d, teacher_id = teacher,
                                name = nm, age = n\<rparr>],
                            next_id := next_id d + 1\<rparr>)))"

definition insert_test ::
  "string option \<Rightarrow> string \<Rightarrow> nat \<Rightarrow> int option \<Rightarrow> database \<Rightarrow> string + nat \<times> database" where
  "insert_test outcome refusal sid a d =
     (case outcome of
        Some message \<Rightarrow> Inl message
      | None \<Rightarrow>
          (case a of
             None \<Rightarrow> Inl refusal
           | Some n \<Rightarrow>
               if \<not> isInteger n then Inl refusal
               else Inr (next_id d,
                         d\<lparr>diagnostic_tests := diagnostic_tests d @
                              [\<lparr>diagnostic_tests_row.row_id = next_id d, student_id = sid,
                                status = In_progress, age_at_test = n,
                                overall_severity = SeverityNone\<rparr>],
                            next_id := next_id d + 1\<rparr>)))"

definition received_questions :: "questions_json fetched \<Rightarrow> world \<Rightarrow> world" where
  "received_questions reply w =
     (case reply of
        Rejected message \<Rightarrow> catch_toast message w
      | Response code body \<Rightarrow>
          if code = 429
          then setLoading False
                 (emit (Toast ''Rate Limit Exceeded''
                          ''Service is busy. Please try again in a moment.'') w)
          else if \<not> ok code then catch_toast ''Failed to generate questions'' w
          else
            (case body of
               Not_json message \<Rightarrow> catch_toast message w
             | Json (Json_array qs) \<Rightarrow>
                 setLoading False (setStage Stage_main_test (w\<lparr>ui := (ui w)\<lparr>questions := qs\<rparr>\<rparr>))
             | Json (Json_object q) \<Rightarrow>
                 setLoading False (setStage Stage_main_test (w\<lparr>ui := (ui w)\<lparr>questions := [q]\<rparr>\<rparr>))))"

definition handleStudentInfoSubmit :: "environment \<Rightarrow> world \<Rightarrow> world" where
  "handleStudentInfoSubmit env w =
     (if trim (studentName (ui w)) = []
      then emit (Toast ''Missing Name'' ''Please enter the student's name.'') w
      else
        (case auth_session env of
           None \<Rightarrow>
             setLoading False
               (emit (Navigate ''/auth'')
                  (emit (Toast ''Not Authenticated'' ''Please sign in to continue.'') w))
         | Some user \<Rightarrow>
             (case insert_student (students_insert_error env) (store_refusal env)
                     (studentName (ui w)) (diagnostic.age (ui w)) user (db w) of
                Inl message \<Rightarrow> catch_toast message w
              | Inr (sid, d1) \<Rightarrow>
                  let w1 = w\<lparr>ui := (ui w)\<lparr>studentId := Some sid\<rparr>, db := d1\<rparr>
                  in (case insert_test (diagnostic_tests_insert_error env) (store_refusal env)
                             sid (diagnostic.age (ui w)) d1 of
                        Inl message \<Rightarrow> catch_toast message w1
                      | Inr (tid, d2) \<Rightarrow>
                          received_questions (generate_question env)
                            (emit (Fetch (Generate_question (diagnostic.age (ui w)) 10))
                               (w1\<lparr>ui := (ui w1)\<lparr>testId := Some tid\<rparr>, db := d2\<rparr>))))))"

subsection \<open>Completion\<close>

definition complete :: "world \<Rightarrow> world" where
  "complete w =
     setLoading False
       (emit (Toast ''Assessment Complete!'' ''Your personalized roadmap is ready.'')
          (setStage Stage_roadmap w))"

definition mark_completed :: "nat \<Rightarrow> severity \<Rightarrow> database \<Rightarrow> database" where
  "mark_completed t sev d =
     d\<lparr>diagnostic_tests :=
         map (\<lambda>r. if diagnostic_tests_row.row_id r = t
                   then r\<lparr>status := Completed, overall_severity := sev\<rparr> else r)
           (diagnostic_tests d)\<rparr>"

definition confirm_blockers :: "nat \<Rightarrow> database \<Rightarrow> database" where
  "confirm_blockers t d =
     d\<lparr>blockers_detected :=
         map (\<lambda>r. if blockers_detected_row.test_id r = t
                   then r\<lparr>is_confirmed := True\<rparr> else r)
           (blockers_detected d)\<rparr>"

text \<open>
  The part of \<^verbatim>\<open>generateRoadmap\<close> under \<^verbatim>\<open>if (testId)\<close>: insert the roadmap, compute the
  severity, mark the test completed, confirm the blockers. Each error is thrown to the
  \<^verbatim>\<open>catch\<close> of \<^verbatim>\<open>generateRoadmap\<close>; what was written before it stays.
\<close>

definition persist_completion ::
  "environment \<Rightarrow> nat \<Rightarrow> roadmap_data \<Rightarrow> response list \<Rightarrow> world \<Rightarrow> world" where
  "persist_completion env t roadmapData allResponses w =
     (case store_answer (remediation_roadmaps_insert_error env) (store_refusal env)
             (roadmapData \<noteq> ''null'') of
        Some message \<Rightarrow> catch_toast message w
      | None \<Rightarrow>
          let w1 = w\<lparr>db := (db w)\<lparr>remediation_roadmaps := remediation_roadmaps (db w) @
                       [\<lparr>remediation_roadmaps_row.test_id = t, roadmap_data = roadmapData\<rparr>]\<rparr>\<rparr>;
              severity = overallSeverity (blockers (ui w)) allResponses
          in (case diagnostic_tests_update_error env of
                Some message \<Rightarrow> catch_toast message w1
              | None \<Rightarrow>
                  let w2 = w1\<lparr>db := mark_completed t severity (db w1)\<rparr>
                  in if length (blockers (ui w)) > 0
                     then (case blockers_detected_update_error env of
                             Some message \<Rightarrow> catch_toast message w2
                           | None \<Rightarrow> complete (w2\<lparr>db := confirm_blockers t (db w2)\<rparr>))
                     else complete w2))"

definition generateRoadmap :: "environment \<Rightarrow> response list \<Rightarrow> world \<Rightarrow> world" where
  "generateRoadmap env allResponses w =
     (let w0 = emit (Fetch (Generate_roadmap (diagnostic.age (ui w)) (blockers (ui w))
                              allResponses)) w
      in case generate_roadmap env of
           Rejected message \<Rightarrow> catch_toast message w0
         | Response code body \<Rightarrow>
             if code = 429
             then setLoading False
                    (emit (Toast ''Rate Limit Exceeded''
                             ''Please wait before generating the roadmap.'') w0)
             else if \<not> ok code then catch_toast ''Failed to generate roadmap'' w0
             else
               (case body of
                  Not_json message \<Rightarrow> catch_toast message w0
                | Json roadmapData \<Rightarrow>
                    let w1 = w0\<lparr>ui := (ui w0)\<lparr>roadmap := Some roadmapData\<rparr>\<rparr>
                    in (case testId (ui w) of
                          None \<Rightarrow> complete w1
                        | Some t \<Rightarrow> persist_completion env t roadmapData allResponses w1)))"

subsection \<open>Answers\<close>

text \<open>
  \<^verbatim>\<open>saveResponses\<close> catches the error of its insert and writes it to the console.
\<close>

definition saveResponses :: "environment \<Rightarrow> response list \<Rightarrow> world \<Rightarrow> world" where
  "saveResponses env responsesToSave w =
     (case testId (ui w) of
        None \<Rightarrow> w
      | Some t \<Rightarrow>
          (case store_answer (test_responses_insert_error env) (store_refusal env)
                  (list_all (\<lambda>r. isInteger (int (questionNumber r))
                                  \<and> isInteger (int (response.difficultyLevel r)))
                     responsesToSave) of
             Some message \<Rightarrow> emit (Console_error ''Error saving responses:'' message) w
           | None \<Rightarrow>
               w\<lparr>db := (db w)\<lparr>test_responses := test_responses (db w) @
                     map (\<lambda>r. \<lparr>test_responses_row.test_id = t,
                                question_number = questionNumber r,
                                question_text = response.questionText r,
                                user_answer = response.userAnswer r,
                                correct_answer = response.correctAnswer r,
                                is_correct = isCorrect r,
                                construct_tested = response.construct r,
                                difficulty_level = response.difficultyLevel r\<rparr>)
                       responsesToSave\<rparr>\<rparr>))"

definition saveBlockers :: "environment \<Rightarrow> blocker list \<Rightarrow> world \<Rightarrow> world" where
  "saveBlockers env detected w =
     (case testId (ui w) of
        None \<Rightarrow> w
      | Some t \<Rightarrow>
          (case store_answer (blockers_detected_insert_error env) (store_refusal env)
                  (list_all (\<lambda>b. isInteger (int (blocker.error_count b))) detected) of
             Some message \<Rightarrow> emit (Console_error ''Error saving blockers:'' message) w
           | None \<Rightarrow>
               w\<lparr>db := (db w)\<lparr>blockers_detected := blockers_detected (db w) @
                     map (\<lambda>b. \<lparr>blockers_detected_row.test_id = t,
                                blocker_name = blocker.blocker_name b,
                                error_count = blocker.error_count b,
                                is_confirmed = False\<rparr>)
                       detected\<rparr>\<rparr>))"

definition received_confirmatory ::
  "questions_json fetched \<Rightarrow> string \<Rightarrow> string \<Rightarrow> response list \<Rightarrow> world \<Rightarrow> world" where
  "received_confirmatory reply notIterable primary allResponses w =
     (case reply of
        Rejected message \<Rightarrow> catch_toast message w
      | Response code body \<Rightarrow>
          if code = 429
          then setLoading False
                 (emit (Toast ''Rate Limit Exceeded''
                          ''Please wait a moment before continuing the confirmatory test.'') w)
          else if \<not> ok code then catch_toast ''Failed to generate confirmatory test'' w
          else
            (case body of
               Not_json message \<Rightarrow> catch_toast message w
             | Json (Json_object q) \<Rightarrow> catch_toast notIterable w
             | Json (Json_array confirmatoryQuestions) \<Rightarrow>
                 setLoading False
                   (emit (Toast ''Blocker Detected''
                            (''We've identified potential difficulty with '' @ primary
                             @ ''. Let's confirm with a few more questions.''))
                      (setStage Stage_confirmatory
                         (w\<lparr>ui := (ui w)\<lparr>questions := questions (ui w) @ confirmatoryQuestions,
                                          currentQuestion := length allResponses\<rparr>\<rparr>)))))"

definition detectBlockers :: "environment \<Rightarrow> response list \<Rightarrow> world \<Rightarrow> world" where
  "detectBlockers env allResponses w =
     (case detectedBlockers allResponses of
        [] \<Rightarrow> generateRoadmap env allResponses w
      | b # bs \<Rightarrow>
          let w1 = saveBlockers env (b # bs) (w\<lparr>ui := (ui w)\<lparr>blockers := b # bs\<rparr>\<rparr>)
          in received_confirmatory (generate_confirmatory_test env) (not_iterable env)
               (blocker.blocker_name b) allResponses
               (emit (Fetch (Generate_confirmatory_test (diagnostic.age (ui w))
                               (blocker.blocker_name b))) w1))"

text \<open>
  \<^verbatim>\<open>handleAnswerSubmit\<close>. \<^verbatim>\<open>questions[currentQuestion]\<close> is \<^verbatim>\<open>undefined\<close> past the end of the
  queue, and reading \<^verbatim>\<open>question.correctAnswer\<close> then throws a \<^verbatim>\<open>TypeError\<close> that nothing
  catches: the handler ends before any state is set. Within one run of a handler no state
  variable is read after it has been set, so the state is threaded through.
\<close>

datatype js_error = TypeError

definition grade :: "nat \<Rightarrow> string \<Rightarrow> question \<Rightarrow> response" where
  "grade cursor answer q =
     \<lparr>response.questionNumber = cursor + 1,
      response.questionText = question.questionText q,
      response.userAnswer = answer,
      response.correctAnswer = question.correctAnswer q,
      response.isCorrect = evaluateAnswer answer (question.correctAnswer q),
      response.construct = question.construct q,
      response.difficultyLevel = question.difficultyLevel q\<rparr>"

definition handleAnswerSubmit :: "environment \<Rightarrow> world \<Rightarrow> js_error + world" where
  "handleAnswerSubmit env w =
     (if trim (diagnostic.userAnswer (ui w)) = []
      then Inr (emit (Toast ''Missing Answer'' ''Please enter your answer.'') w)
      else if currentQuestion (ui w) \<ge> length (questions (ui w)) then Inl TypeError
      else
        let r = grade (currentQuestion (ui w)) (diagnostic.userAnswer (ui w))
                  (questions (ui w) ! currentQuestion (ui w));
            newResponses = responses (ui w) @ [r];
            w1 = w\<lparr>ui := (ui w)\<lparr>responses := newResponses, userAnswer := []\<rparr>\<rparr>
        in if stage (ui w) = Stage_main_test \<and> length newResponses = MAIN_TEST_LENGTH
           then Inr (detectBlockers env newResponses
                       (saveResponses env (take MAIN_TEST_LENGTH newResponses) w1))
           else if stage (ui w) = Stage_confirmatory
                   \<and> length newResponses = MAIN_TEST_LENGTH + CONFIRMATORY_LENGTH
           then Inr (generateRoadmap env newResponses
                       (saveResponses env (drop MAIN_TEST_LENGTH newResponses) w1))
           else Inr (w1\<lparr>ui := (ui w1)\<lparr>currentQuestion := currentQuestion (ui w) + 1\<rparr>\<rparr>))"

subsection \<open>Events\<close>

text \<open>
  The controls the page renders in each stage: the age field and its button in
  \<^verbatim>\<open>age\<close>, the name field and its button in \<^verbatim>\<open>student-info\<close>, the answer field and its
  button in \<^verbatim>\<open>main-test\<close> and \<^verbatim>\<open>confirmatory\<close>. The stage \<^verbatim>\<open>roadmap\<close> renders the roadmap with
  the buttons to print and to leave the page, neither of which touches the state. One
  handler runs at a time.
\<close>

datatype event =
  SetAge "int option"
| AgeSubmit
| SetStudentName string
| StudentInfoSubmit
| SetUserAnswer string
| AnswerSubmit

fun rendered :: "stage \<Rightarrow> event \<Rightarrow> bool" where
  "rendered Stage_age (SetAge a) = True"
| "rendered Stage_age AgeSubmit = True"
| "rendered Stage_student_info (SetStudentName n) = True"
| "rendered Stage_student_info StudentInfoSubmit = True"
| "rendered Stage_main_test (SetUserAnswer a) = True"
| "rendered Stage_main_test AnswerSubmit = True"
| "rendered Stage_confirmatory (SetUserAnswer a) = True"
| "rendered Stage_confirmatory AnswerSubmit = True"
| "rendered st ev = False"

fun handle :: "event \<Rightarrow> environment \<Rightarrow> world \<Rightarrow> js_error + world" where
  "handle (SetAge a) env w = Inr (w\<lparr>ui := (ui w)\<lparr>age := a\<rparr>\<rparr>)"
| "handle AgeSubmit env w = Inr (handleAgeSubmit w)"
| "handle (SetStudentName n) env w = Inr (w\<lparr>ui := (ui w)\<lparr>studentName := n\<rparr>\<rparr>)"
| "handle StudentInfoSubmit env w = Inr (handleStudentInfoSubmit env w)"
| "handle (SetUserAnswer a) env w = Inr (w\<lparr>ui := (ui w)\<lparr>userAnswer := a\<rparr>\<rparr>)"
| "handle AnswerSubmit env w = handleAnswerSubmit env w"

definition initial_ui :: diagnostic where
  "initial_ui =
     \<lparr>stage = Stage_age, age = None, studentName = [], studentId = None, testId = None,
      currentQuestion = 0, questions = [], responses = [], userAnswer = [],
      loading = False, blockers = [], roadmap = None\<rparr>"

text \<open>
  A store is consistent when every key of a test, and every test a blocker row refers to
  (\<^verbatim>\<open>REFERENCES public.diagnostic_tests(id)\<close>), was issued before \<open>next_id\<close>.
\<close>

definition test_ids :: "database \<Rightarrow> nat set" where
  "test_ids d = set (map diagnostic_tests_row.row_id (diagnostic_tests d))"

definition blocker_test_ids :: "database \<Rightarrow> nat set" where
  "blocker_test_ids d = set (map blockers_detected_row.test_id (blockers_detected d))"

definition consistent :: "database \<Rightarrow> bool" where
  "consistent d =
     ((\<forall>i \<in> test_ids d. i < next_id d) \<and> (\<forall>i \<in> blocker_test_ids d. i < next_id d))"


text \<open>A run of events, each with the answers of the outside; it stops at an error.\<close>

fun run :: "(event \<times> environment) list \<Rightarrow> world \<Rightarrow> js_error + world" where
  "run [] w = Inr w"
| "run ((ev, env) # rest) w =
     (if rendered (stage (ui w)) ev
      then (case handle ev env w of Inl e \<Rightarrow> Inl e | Inr w' \<Rightarrow> run rest w')
      else run rest w)"

section \<open>Notions of the specification\<close>

text \<open>
  The number of incorrect responses of a construct, and the names that \<^verbatim>\<open>Object.prototype\<close>
  already gives a meaning.
\<close>

definition errorCount :: "response list \<Rightarrow> string \<Rightarrow> nat" where
  "errorCount allResponses c =
     length (filter (\<lambda>r. \<not> isCorrect r \<and> construct r = c) allResponses)"

definition inherited :: "string \<Rightarrow> bool" where
  "inherited k = (k \<in> set (map fst objectPrototype))"

text \<open>
  The earliest incorrect response, in the order of the responses, whose construct was
  promoted.
\<close>

definition earliestPromoted :: "response list \<Rightarrow> response option" where
  "earliestPromoted allResponses =
     find (\<lambda>r. \<not> isCorrect r
                \<and> construct r \<in> set (map blocker.blocker_name (detectedBlockers allResponses)))
       allResponses"

text \<open>The decision table of the severity scorer, read top to bottom.\<close>

definition score :: "nat \<Rightarrow> rat \<Rightarrow> severity" where
  "score blockerCount rate =
     (if blockerCount \<ge> 3 \<or> rate > 6 / 10 then Severe
      else if blockerCount \<ge> 2 \<or> rate > 4 / 10 then Moderate
      else if blockerCount \<ge> 1 \<or> rate > 2 / 10 then Mild
      else SeverityNone)"

definition incorrectCount :: "response list \<Rightarrow> nat" where
  "incorrectCount allResponses = length (filter (\<lambda>r. \<not> isCorrect r) allResponses)"

text \<open>The requests among the effects of a session, in the order they were sent.\<close>

fun requests :: "effect list \<Rightarrow> request list" where
  "requests [] = []"
| "requests (Fetch r # es) = r # requests es"
| "requests (e # es) = requests es"




section \<open>Auxiliary notions for the proofs\<close>

definition incorrectConstructs :: "response list \<Rightarrow> string list" where
  "incorrectConstructs rs = map construct (filter (\<lambda>r. \<not> isCorrect r) rs)"

definition tally :: "string list \<Rightarrow> jsobject" where
  "tally ks = foldl (\<lambda>obj k. assign obj k (incremented obj k)) [] ks"

definition firstOccurrences :: "'a list \<Rightarrow> 'a list" where
  "firstOccurrences xs = rev (remdups (rev xs))"

definition promoted :: "string list \<Rightarrow> string \<Rightarrow> bool" where
  "promoted ks k = (\<not> inherited k \<and> 2 \<le> count_list ks k)"

definition toBlocker :: "string list \<Rightarrow> string \<Rightarrow> blocker" where
  "toBlocker ks k = \<lparr>blocker.blocker_name = k, blocker.error_count = count_list ks k\<rparr>"

text \<open>
  No row of the test \<open>t\<close> in \<^verbatim>\<open>blockers_detected\<close> is confirmed; and what holds of every
  session: the store is consistent, a session past the enrolment has a test of the store,
  its blocker rows are unconfirmed before the roadmap, blocker rows exist only once blockers
  were detected, responses exist only past the enrolment, and blockers only from the end of
  the main test on.
\<close>

definition unconfirmed :: "nat \<Rightarrow> database \<Rightarrow> bool" where
  "unconfirmed t d =
     list_all (\<lambda>r. blockers_detected_row.test_id r \<noteq> t \<or> \<not> is_confirmed r)
       (blockers_detected d)"

definition session_inv :: "world \<Rightarrow> bool" where
  "session_inv w =
     (consistent (db w)
      \<and> (testId (ui w) = None
           \<longrightarrow> stage (ui w) = Stage_age \<or> stage (ui w) = Stage_student_info)
      \<and> (\<forall>t. testId (ui w) = Some t \<longrightarrow>
             t < next_id (db w) \<and> t \<in> test_ids (db w)
             \<and> (stage (ui w) = Stage_roadmap \<or> unconfirmed t (db w))
             \<and> (blockers (ui w) \<noteq> [] \<or> t \<notin> blocker_test_ids (db w)))
      \<and> (responses (ui w) = []
           \<or> (stage (ui w) \<noteq> Stage_age \<and> stage (ui w) \<noteq> Stage_student_info))
      \<and> (blockers (ui w) = []
           \<or> (stage (ui w) = Stage_main_test \<and> MAIN_TEST_LENGTH \<le> length (responses (ui w)))
           \<or> stage (ui w) = Stage_confirmatory \<or> stage (ui w) = Stage_roadmap))"

section \<open>Example inputs\<close>

definition answered :: "nat \<Rightarrow> bool \<Rightarrow> string \<Rightarrow> response" where
  "answered n right c =
     \<lparr>response.questionNumber = n, response.questionText = ''How many?'',
      response.userAnswer = ''4'', response.correctAnswer = (if right then ''4'' else ''5''),
      response.isCorrect = right, response.construct = c, response.difficultyLevel = 1\<rparr>"

text \<open>A main-test batch with two incorrect responses on a construct named \<^verbatim>\<open>toString\<close>.\<close>

definition batch_toString :: "response list" where
  "batch_toString =
     [answered 1 False ''toString'', answered 2 False ''toString'',
      answered 3 True ''Number Sense'', answered 4 True ''Number Sense'',
      answered 5 True ''Number Sense'', answered 6 True ''Place Value'',
      answered 7 True ''Place Value'', answered 8 True ''Place Value'',
      answered 9 True ''Place Value'', answered 10 True ''Place Value'']"

text \<open>
  The batch of the specification: \<^verbatim>\<open>Number Sense\<close> with three incorrect and one correct
  response, \<^verbatim>\<open>Place Value\<close> with one incorrect response.
\<close>

definition batch_number_sense :: "response list" where
  "batch_number_sense =
     [answered 1 False ''Number Sense'', answered 2 False ''Place Value'',
      answered 3 False ''Number Sense'', answered 4 True ''Number Sense'',
      answered 5 False ''Number Sense'', answered 6 True ''Place Value'',
      answered 7 True ''Place Value'', answered 8 True ''Place Value'',
      answered 9 True ''Place Value'', answered 10 True ''Place Value'']"

text \<open>
  A batch whose first two errors are on \<^verbatim>\<open>Zeta\<close> and whose next two are on a construct
  named \<^verbatim>\<open>7\<close>.
\<close>

definition batch_index_name :: "response list" where
  "batch_index_name =
     [answered 1 False ''Zeta'', answered 2 False ''Zeta'',
      answered 3 False ''7'', answered 4 False ''7'',
      answered 5 True ''Zeta'', answered 6 True ''Zeta'',
      answered 7 True ''Zeta'', answered 8 True ''Zeta'',
      answered 9 True ''Zeta'', answered 10 True ''Zeta'']"

text \<open>
  A batch with two errors on \<^verbatim>\<open>Place Value\<close>, the first of them first of all, and three
  on \<^verbatim>\<open>Number Sense\<close>.
\<close>

definition batch_two_blockers :: "response list" where
  "batch_two_blockers =
     [answered 1 False ''Place Value'', answered 2 False ''Number Sense'',
      answered 3 False ''Number Sense'', answered 4 False ''Number Sense'',
      answered 5 False ''Place Value'', answered 6 True ''Place Value'',
      answered 7 True ''Place Value'', answered 8 True ''Place Value'',
      answered 9 True ''Place Value'', answered 10 True ''Place Value'']"


text \<open>
  Ten responses, four of them incorrect, two of these on \<^verbatim>\<open>Place Value\<close>: one blocker and
  an error rate of exactly 0.4.
\<close>

definition batch_four_of_ten :: "response list" where
  "batch_four_of_ten =
     [answered 1 False ''Place Value'', answered 2 False ''Place Value'',
      answered 3 False ''Counting'', answered 4 False ''Addition'',
      answered 5 True ''Place Value'', answered 6 True ''Place Value'',
      answered 7 True ''Place Value'', answered 8 True ''Place Value'',
      answered 9 True ''Place Value'', answered 10 True ''Place Value'']"

text \<open>
  A session: a question, the batches of the provider, an empty store, the page as mounted,
  and an outside where every request and every write succeeds.
\<close>

definition number_sense_question :: question where
  "number_sense_question =
     \<lparr>question.questionText = ''What is 2 + 3?'', question.correctAnswer = ''5'',
      question.construct = ''Number Sense'', question.difficultyLevel = 1\<rparr>"

definition ten_questions :: "question list" where
  "ten_questions =
     [number_sense_question, number_sense_question, number_sense_question,
      number_sense_question, number_sense_question, number_sense_question,
      number_sense_question, number_sense_question, number_sense_question,
      number_sense_question]"

definition five_questions :: "question list" where
  "five_questions =
     [number_sense_question, number_sense_question, number_sense_question,
      number_sense_question, number_sense_question]"

definition empty_store :: database where
  "empty_store =
     \<lparr>students = [], diagnostic_tests = [], test_responses = [], blockers_detected = [],
      remediation_roadmaps = [], next_id = 0\<rparr>"

definition mounted_page :: world where
  "mounted_page = \<lparr>ui = initial_ui, db = empty_store, effects = []\<rparr>"

definition provider :: environment where
  "provider =
     \<lparr>auth_session = Some ''teacher'', store_refusal = ''violates a constraint'',
      not_iterable = ''confirmatoryQuestions is not iterable'',
      students_insert_error = None, diagnostic_tests_insert_error = None,
      generate_question = Response 200 (Json (Json_array ten_questions)),
      test_responses_insert_error = None, blockers_detected_insert_error = None,
      generate_confirmatory_test = Response 200 (Json (Json_array five_questions)),
      generate_roadmap = Response 200 (Json ''{}''),
      remediation_roadmaps_insert_error = None, diagnostic_tests_update_error = None,
      blockers_detected_update_error = None\<rparr>"

text \<open>
  Other answers of the outside: 429 for the main batch, 429 for the confirmatory batch, a
  main batch of one question, and a store that fails to save responses and blockers.
\<close>

definition rate_limited_questions :: environment where
  "rate_limited_questions = provider\<lparr>generate_question := Response 429 (Not_json [])\<rparr>"

definition rate_limited_confirmatory :: environment where
  "rate_limited_confirmatory =
     provider\<lparr>generate_confirmatory_test := Response 429 (Not_json [])\<rparr>"

definition short_batch :: environment where
  "short_batch =
     provider\<lparr>generate_question := Response 200 (Json (Json_array [number_sense_question]))\<rparr>"

definition failing_save :: environment where
  "failing_save =
     provider\<lparr>test_responses_insert_error := Some ''connection lost'',
              blockers_detected_insert_error := Some ''connection lost''\<rparr>"

text \<open>
  What the user does: enrol a student of 8 named Ann; type an answer and submit it; enrol,
  answer nine questions and type the tenth answer; submit it, answer four more questions and
  type the fifteenth answer.
\<close>

definition enrol :: "environment \<Rightarrow> (event \<times> environment) list" where
  "enrol env =
     [(SetAge (Some 8), env), (AgeSubmit, env), (SetStudentName ''Ann'', env),
      (StudentInfoSubmit, env)]"

definition answer :: "string \<Rightarrow> environment \<Rightarrow> (event \<times> environment) list" where
  "answer a env = [(SetUserAnswer a, env), (AnswerSubmit, env)]"

definition nine_answers :: "string \<Rightarrow> (event \<times> environment) list" where
  "nine_answers a =
     enrol provider
     @ answer a provider @ answer a provider @ answer a provider
     @ answer a provider @ answer a provider @ answer a provider
     @ answer a provider @ answer a provider @ answer a provider
     @ [(SetUserAnswer a, provider)]"

definition five_more_answers :: "string \<Rightarrow> (event \<times> environment) list" where
  "five_more_answers a =
     [(AnswerSubmit, provider)]
     @ answer a provider @ answer a provider @ answer a provider @ answer a provider
     @ [(SetUserAnswer a, provider)]"

text \<open>
  The worlds on the way: the page with age and name entered; the store after the enrolment;
  the main test with nine answers given and the tenth typed; the confirmatory test with
  fourteen wrong answers given and the fifteenth typed.
\<close>

definition named_page :: world where
  "named_page =
     \<lparr>ui = initial_ui\<lparr>stage := Stage_student_info, age := Some 8, studentName := ''Ann''\<rparr>,
      db = empty_store, effects = []\<rparr>"

definition enrolled_store :: database where
  "enrolled_store =
     \<lparr>students =
        [\<lparr>students_row.row_id = 0, teacher_id = ''teacher'', name = ''Ann'', age = 8\<rparr>],
      diagnostic_tests =
        [\<lparr>diagnostic_tests_row.row_id = 1, student_id = 0, status = In_progress,
          age_at_test = 8, overall_severity = SeverityNone\<rparr>],
      test_responses = [], blockers_detected = [], remediation_roadmaps = [], next_id = 2\<rparr>"

definition ninth :: "string \<Rightarrow> world" where
  "ninth a =
     \<lparr>ui = \<lparr>stage = Stage_main_test, age = Some 8, studentName = ''Ann'',
            studentId = Some 0, testId = Some 1, currentQuestion = 9,
            questions = ten_questions,
            responses = map (\<lambda>i. grade i a number_sense_question) [0..<9],
            userAnswer = a, loading = False, blockers = [], roadmap = None\<rparr>,
      db = enrolled_store,
      effects = [Fetch (Generate_question (Some 8) 10)]\<rparr>"

definition fourteenth :: world where
  "fourteenth =
     \<lparr>ui = \<lparr>stage = Stage_confirmatory, age = Some 8, studentName = ''Ann'',
            studentId = Some 0, testId = Some 1, currentQuestion = 14,
            questions = ten_questions @ five_questions,
            responses = map (\<lambda>i. grade i ''4'' number_sense_question) [0..<14],
            userAnswer = ''4'', loading = False,
            blockers = [\<lparr>blocker.blocker_name = ''Number Sense'', error_count = 10\<rparr>],
            roadmap = None\<rparr>,
      db = enrolled_store
        \<lparr>test_responses :=
           map (\<lambda>r. \<lparr>test_responses_row.test_id = 1,
                       question_number = questionNumber r,
                       question_text = response.questionText r,
                       user_answer = response.userAnswer r,
                       correct_answer = response.correctAnswer r,
                       is_correct = isCorrect r,
                       construct_tested = response.construct r,
                       difficulty_level = response.difficultyLevel r\<rparr>)
             (map (\<lambda>i. grade i ''4'' number_sense_question) [0..<10]),
         blockers_detected :=
           [\<lparr>blockers_detected_row.test_id = 1, blocker_name = ''Number Sense'',
             error_count = 10, is_confirmed = False\<rparr>]\<rparr>,
      effects =
        [Fetch (Generate_question (Some 8) 10),
         Fetch (Generate_confirmatory_test (Some 8) ''Number Sense''),
         Toast ''Blocker Detected''
           (''We've identified potential difficulty with '' @ ''Number Sense''
            @ ''. Let's confirm with a few more questions.'')]\<rparr>"


definition finished_blocked :: world where
  "finished_blocked = projr (handleAnswerSubmit provider fourteenth)"

definition unsaved :: world where
  "unsaved = projr (handleAnswerSubmit failing_save (ninth ''4''))"

definition stuck :: world where
  "stuck = projr (handleAnswerSubmit rate_limited_confirmatory (ninth ''4''))"

section \<open>Answer evaluation: lemmas\<close>








section \<open>Blocker detection: lemmas\<close>

lemma constructErrors_tally:
  "constructErrors rs = tally (map construct (filter (\<lambda>r. \<not> isCorrect r) rs))"
  by (simp add: constructErrors_def tally_def foldl_map)

lemma tally_snoc: "tally (ks @ [k]) = assign (tally ks) k (incremented (tally ks) k)"
  by (simp add: tally_def)

lemma map_of_overwrite:
  "map_of (map (\<lambda>e. if fst e = k then (k, v) else e) obj) k' =
     (if k' = k then (if k \<in> fst ` set obj then Some v else None) else map_of obj k')"
proof (induction obj)
  case Nil
  show ?case by simp
next
  case (Cons e obj)
  obtain a b where e: "e = (a, b)"
    by (cases e)
  show ?case
  proof (cases "a = k")
    case True
    then show ?thesis using Cons e by simp
  next
    case False
    then show ?thesis using Cons e by (cases "k' = k") auto
  qed
qed

lemma keys_overwrite: "map fst (map (\<lambda>e. if fst e = k then (k, v) else e) obj) = map fst obj"
  by (induction obj) auto

lemma map_of_assign:
  "map_of (assign obj k v) k' =
     (if k \<noteq> ''__proto__'' \<and> k' = k then Some v else map_of obj k')"
proof (cases "k = ''__proto__''")
  case True
  then show ?thesis by (simp add: assign_def)
next
  case proto: False
  show ?thesis
  proof (cases "k \<in> fst ` set obj")
    case True
    then show ?thesis
      using proto by (simp add: assign_def map_of_overwrite)
  next
    case False
    then have "map_of obj k = None"
      by (simp add: map_of_eq_None_iff)
    then show ?thesis
      using proto False by (simp add: assign_def map_add_def split: option.split)
  qed
qed

lemma keys_assign:
  "map fst (assign obj k v) =
     (if k = ''__proto__'' \<or> k \<in> fst ` set obj then map fst obj else map fst obj @ [k])"
  by (simp add: assign_def keys_overwrite)

lemma firstOccurrences_snoc:
  "firstOccurrences (xs @ [x]) =
     (if x \<in> set xs then firstOccurrences xs else firstOccurrences xs @ [x])"
  by (simp add: firstOccurrences_def)

lemma set_firstOccurrences: "set (firstOccurrences xs) = set xs"
  by (simp add: firstOccurrences_def)

lemma distinct_firstOccurrences: "distinct (firstOccurrences xs)"
  by (simp add: firstOccurrences_def)

lemma filter_firstOccurrences:
  "filter P (firstOccurrences xs) = firstOccurrences (filter P xs)"
  by (induction xs rule: rev_induct) (auto simp: firstOccurrences_snoc firstOccurrences_def)

lemma firstOccurrences_Cons: "\<exists>zs. firstOccurrences (y # ys) = y # zs"
proof (induction ys rule: rev_induct)
  case Nil
  show ?case by (simp add: firstOccurrences_def)
next
  case (snoc x xs)
  then obtain zs where "firstOccurrences (y # xs) = y # zs" by blast
  then show ?case
    using firstOccurrences_snoc[of "y # xs" x] by auto
qed

lemma keys_tally:
  "map fst (tally ks) = firstOccurrences (filter (\<lambda>k. k \<noteq> ''__proto__'') ks)"
proof (induction ks rule: rev_induct)
  case Nil
  show ?case by (simp add: tally_def firstOccurrences_def)
next
  case (snoc k ks)
  have "set (map fst (tally ks)) = set (filter (\<lambda>k. k \<noteq> ''__proto__'') ks)"
    by (simp only: snoc set_firstOccurrences)
  then have "fst ` set (tally ks) = {x \<in> set ks. x \<noteq> ''__proto__''}"
    by simp
  then show ?case
    by (simp add: tally_snoc keys_assign snoc firstOccurrences_snoc)
qed

lemma distinct_keys_tally: "distinct (map fst (tally ks))"
  by (simp add: keys_tally distinct_firstOccurrences)

lemma inherited_proto: "inherited ''__proto__''"
  by (simp add: inherited_def objectPrototype_def)

lemma map_of_tally_plain:
  "\<not> inherited k \<Longrightarrow>
   map_of (tally ks) k = (if k \<in> set ks then Some (Count (count_list ks k)) else None)"
proof (induction ks rule: rev_induct)
  case Nil
  show ?case by (simp add: tally_def)
next
  case (snoc x xs)
  have proto: "k \<noteq> ''__proto__''"
    using snoc.prems inherited_proto by auto
  have none: "map_of objectPrototype k = None"
    using snoc.prems by (simp add: inherited_def map_of_eq_None_iff)
  show ?case
  proof (cases "x = k")
    case True
    then show ?thesis
      using snoc proto none by (simp add: tally_snoc map_of_assign incremented_def)
  next
    case False
    then show ?thesis
      using snoc by (auto simp: tally_snoc map_of_assign)
  qed
qed

lemma map_of_tally_inherited:
  "inherited k \<Longrightarrow> map_of (tally ks) k \<noteq> Some (Count n)"
proof (induction ks arbitrary: n rule: rev_induct)
  case Nil
  show ?case by (simp add: tally_def)
next
  case (snoc x xs)
  obtain t where t: "map_of objectPrototype k = Some t"
    using snoc.prems
    by (metis inherited_def map_of_eq_None_iff not_Some_eq set_map)
  show ?case
  proof (cases "x \<noteq> ''__proto__'' \<and> k = x")
    case True
    then show ?thesis
      using snoc t
      by (auto simp: tally_snoc map_of_assign incremented_def split: option.splits jsval.splits)
  next
    case False
    then show ?thesis
      using snoc by (auto simp: tally_snoc map_of_assign)
  qed
qed

lemma count_list_pos: "0 < count_list ks k \<Longrightarrow> k \<in> set ks"
  by (metis count_notin less_numeral_extra(3))

lemma promote_tally:
  assumes "(k, v) \<in> set (tally ks)"
  shows "promote (k, v) = (if promoted ks k then Some (toBlocker ks k) else None)"
proof -
  have v: "map_of (tally ks) k = Some v"
    using assms distinct_keys_tally by (simp add: map_of_is_SomeI)
  show ?thesis
  proof (cases "inherited k")
    case True
    then have "\<forall>n. v \<noteq> Count n"
      using v map_of_tally_inherited by auto
    then obtain t n where "v = NativeText t n"
      by (cases v) auto
    then show ?thesis
      using True by (simp add: promoted_def)
  next
    case False
    then have "v = Count (count_list ks k)"
      using v map_of_tally_plain[of k ks] by (auto split: if_splits)
    then show ?thesis
      using False by (simp add: promoted_def toBlocker_def)
  qed
qed

lemma map_filter_promote:
  "set xs \<subseteq> set (tally ks) \<Longrightarrow>
   List.map_filter promote xs = map (\<lambda>e. toBlocker ks (fst e)) (filter (\<lambda>e. promoted ks (fst e)) xs)"
proof (induction xs)
  case Nil
  show ?case by (simp add: List.map_filter_simps)
next
  case (Cons e xs)
  obtain k v where e: "e = (k, v)" by (cases e)
  then have "(k, v) \<in> set (tally ks)" using Cons.prems by simp
  then have "promote e = (if promoted ks k then Some (toBlocker ks k) else None)"
    using e promote_tally by simp
  then show ?case
    using Cons e by (simp add: List.map_filter_simps)
qed

lemma set_Object_entries: "set (Object_entries obj) = set obj"
  by (auto simp: Object_entries_def)

lemma detectedBlockers_entries:
  "detectedBlockers rs =
     map (\<lambda>e. toBlocker (incorrectConstructs rs) (fst e))
       (filter (\<lambda>e. promoted (incorrectConstructs rs) (fst e))
          (Object_entries (tally (incorrectConstructs rs))))"
  unfolding detectedBlockers_def constructErrors_tally incorrectConstructs_def[symmetric]
  by (rule map_filter_promote) (simp add: set_Object_entries)

lemma count_list_incorrectConstructs:
  "count_list (incorrectConstructs rs) c = errorCount rs c"
  by (induction rs) (simp_all add: incorrectConstructs_def errorCount_def)

lemma keyset_tally: "fst ` set (tally ks) = {k \<in> set ks. k \<noteq> ''__proto__''}"
  using arg_cong[OF keys_tally, of set ks] by (simp add: set_firstOccurrences)

lemma in_detectedBlockers:
  "b \<in> set (detectedBlockers rs) \<longleftrightarrow>
     (\<exists>k. promoted (incorrectConstructs rs) k \<and> b = toBlocker (incorrectConstructs rs) k)"
proof
  assume "b \<in> set (detectedBlockers rs)"
  then obtain e where "promoted (incorrectConstructs rs) (fst e)"
    and "b = toBlocker (incorrectConstructs rs) (fst e)"
    unfolding detectedBlockers_entries by auto
  then show "\<exists>k. promoted (incorrectConstructs rs) k \<and> b = toBlocker (incorrectConstructs rs) k"
    by blast
next
  let ?ks = "incorrectConstructs rs"
  assume "\<exists>k. promoted ?ks k \<and> b = toBlocker ?ks k"
  then obtain k where k: "promoted ?ks k" and b: "b = toBlocker ?ks k"
    by blast
  have "k \<in> set ?ks"
    using k count_list_pos[of ?ks k] by (simp add: promoted_def)
  moreover have "k \<noteq> ''__proto__''"
    using k inherited_proto by (auto simp: promoted_def)
  ultimately have "k \<in> fst ` set (tally ?ks)"
    by (simp add: keyset_tally)
  then obtain e where e: "e \<in> set (tally ?ks)" and fe: "fst e = k"
    by auto
  then have "e \<in> set (filter (\<lambda>e. promoted ?ks (fst e)) (Object_entries (tally ?ks)))"
    using k by (simp add: set_Object_entries)
  then have "toBlocker ?ks (fst e) \<in> set (detectedBlockers rs)"
    unfolding detectedBlockers_entries by (metis (no_types, lifting) image_eqI set_map)
  then show "b \<in> set (detectedBlockers rs)"
    using b fe by simp
qed

lemma set_detectedBlockers:
  "set (detectedBlockers rs) =
     {b. \<exists>c. \<not> inherited c \<and> 2 \<le> errorCount rs c
             \<and> b = \<lparr>blocker.blocker_name = c, blocker.error_count = errorCount rs c\<rparr>}"
  by (rule set_eqI)
     (simp add: in_detectedBlockers promoted_def toBlocker_def count_list_incorrectConstructs)

lemma distinct_keys_Object_entries:
  assumes "distinct (map fst obj)"
  shows "distinct (map fst (Object_entries obj))"
proof -
  have d: "distinct obj" and inj: "inj_on fst (set obj)"
    using assms by (simp_all add: distinct_map)
  let ?S = "sort_key (\<lambda>e. indexValue (fst e)) (filter (\<lambda>e. isArrayIndex (fst e)) obj)"
  let ?R = "filter (\<lambda>e. \<not> isArrayIndex (fst e)) obj"
  have "inj_on fst (set ?S)"
    by (rule inj_on_subset[OF inj]) auto
  then have S: "distinct (map fst ?S)"
    using d by (simp add: distinct_map)
  have "inj_on fst (set ?R)"
    by (rule inj_on_subset[OF inj]) auto
  then have R: "distinct (map fst ?R)"
    using d by (simp add: distinct_map)
  have "set (map fst ?S) \<inter> set (map fst ?R) = {}"
    by auto
  with S R show ?thesis
    unfolding Object_entries_def by (simp only: map_append distinct_append) 
qed

lemma names_detectedBlockers:
  "map blocker.blocker_name (detectedBlockers rs) =
     filter (promoted (incorrectConstructs rs))
       (map fst (Object_entries (tally (incorrectConstructs rs))))"
  by (simp add: detectedBlockers_entries toBlocker_def filter_map comp_def)

lemma distinct_detectedBlockers:
  "distinct (map blocker.blocker_name (detectedBlockers rs))"
  unfolding names_detectedBlockers
  by (rule distinct_filter) (rule distinct_keys_Object_entries, rule distinct_keys_tally)

lemma keys_Object_entries:
  "map fst (Object_entries obj) =
     map fst (sort_key (\<lambda>e. indexValue (fst e)) (filter (\<lambda>e. isArrayIndex (fst e)) obj))
     @ filter (\<lambda>k. \<not> isArrayIndex k) (map fst obj)"
  by (simp add: Object_entries_def filter_map comp_def)

lemma promoted_iff_name:
  "promoted (incorrectConstructs rs) k \<longleftrightarrow>
     k \<in> set (map blocker.blocker_name (detectedBlockers rs))"
proof
  assume "promoted (incorrectConstructs rs) k"
  then have "toBlocker (incorrectConstructs rs) k \<in> set (detectedBlockers rs)"
    using in_detectedBlockers by blast
  then have "blocker.blocker_name (toBlocker (incorrectConstructs rs) k)
               \<in> blocker.blocker_name ` set (detectedBlockers rs)"
    by (rule imageI)
  then show "k \<in> set (map blocker.blocker_name (detectedBlockers rs))"
    by (simp add: toBlocker_def)
next
  assume "k \<in> set (map blocker.blocker_name (detectedBlockers rs))"
  then obtain b where "b \<in> set (detectedBlockers rs)" and "blocker.blocker_name b = k"
    by auto
  then show "promoted (incorrectConstructs rs) k"
    using in_detectedBlockers[of b rs] by (auto simp: toBlocker_def)
qed

lemma names_creation_order:
  assumes "\<forall>k \<in> set (map blocker.blocker_name (detectedBlockers rs)). \<not> isArrayIndex k"
  shows "map blocker.blocker_name (detectedBlockers rs) =
           firstOccurrences (filter (promoted (incorrectConstructs rs)) (incorrectConstructs rs))"
proof -
  let ?ks = "incorrectConstructs rs"
  let ?P = "promoted ?ks"
  let ?S = "sort_key (\<lambda>e. indexValue (fst e)) (filter (\<lambda>e. isArrayIndex (fst e)) (tally ?ks))"
  have notidx: "?P k \<Longrightarrow> \<not> isArrayIndex k" for k
    using assms promoted_iff_name by blast
  have "\<forall>k \<in> set (map fst ?S). \<not> ?P k"
    using notidx by auto
  then have front: "filter ?P (map fst ?S) = []"
    by (simp only: filter_empty_conv)
  have rear: "filter ?P (filter (\<lambda>k. \<not> isArrayIndex k) (map fst (tally ?ks))) =
              filter ?P (map fst (tally ?ks))"
    unfolding filter_filter by (rule filter_cong) (use notidx in auto)
  have proto: "filter ?P (filter (\<lambda>k. k \<noteq> ''__proto__'') ?ks) = filter ?P ?ks"
    unfolding filter_filter
    by (rule filter_cong) (use inherited_proto in \<open>auto simp: promoted_def\<close>)
  have "map blocker.blocker_name (detectedBlockers rs) = filter ?P (map fst (tally ?ks))"
    unfolding names_detectedBlockers keys_Object_entries filter_append front rear by simp
  also have "\<dots> = firstOccurrences (filter ?P ?ks)"
    unfolding keys_tally filter_firstOccurrences proto by simp
  finally show ?thesis .
qed

lemma find_of_filter: "filter Q xs = y # ys \<Longrightarrow> find Q xs = Some y"
  by (induction xs) (auto split: if_splits)

lemma primary_is_earliest:
  assumes detected: "detectedBlockers rs = b # bs"
    and plain: "\<forall>x \<in> set (b # bs). \<not> isArrayIndex (blocker.blocker_name x)"
  shows "\<exists>r. earliestPromoted rs = Some r \<and> construct r = blocker.blocker_name b"
proof -
  let ?ks = "incorrectConstructs rs"
  let ?P = "promoted ?ks"
  let ?Q = "\<lambda>r. \<not> isCorrect r \<and> ?P (construct r)"
  have "\<forall>k \<in> set (map blocker.blocker_name (detectedBlockers rs)). \<not> isArrayIndex k"
    using plain detected by simp
  then have "firstOccurrences (filter ?P ?ks) = map blocker.blocker_name (b # bs)"
    using names_creation_order detected by metis
  then have first: "firstOccurrences (filter ?P ?ks) = blocker.blocker_name b # map blocker.blocker_name bs"
    by simp
  have "filter ?P ?ks \<noteq> []"
    using first by (auto simp: firstOccurrences_def)
  then obtain y ys where ys: "filter ?P ?ks = y # ys"
    by (cases "filter ?P ?ks") auto
  then have y: "y = blocker.blocker_name b"
    using first firstOccurrences_Cons[of y ys] by auto
  have "filter ?P ?ks = map construct (filter ?Q rs)"
    by (simp add: incorrectConstructs_def filter_map comp_def conj_commute)
  then obtain r rest where r: "filter ?Q rs = r # rest" and "construct r = y"
    using ys by (cases "filter ?Q rs") auto
  moreover have "earliestPromoted rs = find ?Q rs"
    unfolding earliestPromoted_def by (simp only: promoted_iff_name)
  ultimately show ?thesis
    using y find_of_filter[of ?Q rs r rest] by simp
qed

lemma sorted_head_le: "sorted (map f (a # as)) \<Longrightarrow> y \<in> set as \<Longrightarrow> f a \<le> f y"
  by simp

lemma primary_is_least_index:
  assumes detected: "detectedBlockers rs = b # bs"
    and some: "\<exists>x \<in> set (b # bs). isArrayIndex (blocker.blocker_name x)"
  shows "isArrayIndex (blocker.blocker_name b) \<and>
         (\<forall>x \<in> set bs. isArrayIndex (blocker.blocker_name x) \<longrightarrow>
            indexValue (blocker.blocker_name b) \<le> indexValue (blocker.blocker_name x))"
proof -
  let ?ks = "incorrectConstructs rs"
  let ?P = "promoted ?ks"
  let ?S = "sort_key (\<lambda>e. indexValue (fst e)) (filter (\<lambda>e. isArrayIndex (fst e)) (tally ?ks))"
  let ?A = "filter ?P (map fst ?S)"
  let ?B = "filter ?P (filter (\<lambda>k. \<not> isArrayIndex k) (map fst (tally ?ks)))"
  have "map blocker.blocker_name (detectedBlockers rs) = ?A @ ?B"
    unfolding names_detectedBlockers keys_Object_entries filter_append by (rule refl)
  then have names: "map blocker.blocker_name (b # bs) = ?A @ ?B"
    by (simp only: detected)
  have "set ?S = {e \<in> set (tally ?ks). isArrayIndex (fst e)}"
    by simp
  then have "set (map fst ?S) = fst ` {e \<in> set (tally ?ks). isArrayIndex (fst e)}"
    by (simp only: set_map)
  then have S_idx: "\<forall>k \<in> set (map fst ?S). isArrayIndex k"
    by (simp only:) blast
  have A_idx: "\<forall>k \<in> set ?A. isArrayIndex k"
    using S_idx by (simp only: set_filter) blast
  have B_plain: "\<forall>k \<in> set ?B. \<not> isArrayIndex k"
    by (simp only: set_filter) blast
  have "sorted (map (\<lambda>e. indexValue (fst e)) ?S)"
    by (rule sorted_sort_key)
  then have "sorted (map indexValue (map fst ?S))"
    by (simp only: map_map comp_def)
  then have sorted_A: "sorted (map indexValue ?A)"
    by (rule sorted_filter)
  obtain x0 where x0: "x0 \<in> set (b # bs)" and idx0: "isArrayIndex (blocker.blocker_name x0)"
    using some by blast
  have "blocker.blocker_name x0 \<in> set (map blocker.blocker_name (b # bs))"
    using x0 by (simp only: set_map) (rule imageI)
  then have "blocker.blocker_name x0 \<in> set ?A \<union> set ?B"
    by (simp only: names set_append)
  then have "blocker.blocker_name x0 \<in> set ?A"
    using B_plain idx0 by blast
  then obtain a as where A: "?A = a # as"
    by (cases ?A) (simp_all only: list.set empty_iff)
  have "map blocker.blocker_name (b # bs) = (a # as) @ ?B"
    using names by (simp only: A)
  then have a: "a = blocker.blocker_name b" and rest: "map blocker.blocker_name bs = as @ ?B"
    by simp_all
  have "a \<in> set ?A"
    by (simp only: A list.set) blast
  then have "isArrayIndex a"
    using A_idx by blast
  moreover have "indexValue a \<le> indexValue (blocker.blocker_name x)"
    if x: "x \<in> set bs" and idx: "isArrayIndex (blocker.blocker_name x)" for x
  proof -
    have "blocker.blocker_name x \<in> set (map blocker.blocker_name bs)"
      using x by (simp only: set_map) (rule imageI)
    then have "blocker.blocker_name x \<in> set as \<union> set ?B"
      by (simp only: rest set_append)
    then have "blocker.blocker_name x \<in> set as"
      using B_plain idx by blast
    moreover have "sorted (map indexValue (a # as))"
      using sorted_A by (simp only: A)
    ultimately show ?thesis
      by (rule sorted_head_le[rotated])
  qed
  ultimately show ?thesis
    using a by blast
qed












lemma evaluateAnswer_rejects:
  "\<not> evaluateAnswer ''4'' ''5'' \<and> \<not> evaluateAnswer ''55'' ''5''
   \<and> \<not> evaluateAnswer ''nine'' ''four'' \<and> \<not> evaluateAnswer ''5'' '' 5''"
  by code_simp

section \<open>The session: lemmas\<close>

lemmas small_defs = emit_def setLoading_def setStage_def catch_toast_def complete_def

lemma persist_completion_session:
  "testId (ui (persist_completion env t rd rs w)) = testId (ui w)"
  "blockers (ui (persist_completion env t rd rs w)) = blockers (ui w)"
  "responses (ui (persist_completion env t rd rs w)) = responses (ui w)"
  "questions (ui (persist_completion env t rd rs w)) = questions (ui w)"
  "currentQuestion (ui (persist_completion env t rd rs w)) = currentQuestion (ui w)"
  "roadmap (ui (persist_completion env t rd rs w)) = roadmap (ui w)"
  by (simp_all add: persist_completion_def small_defs Let_def split: option.splits)

lemma persist_completion_stage:
  "stage (ui (persist_completion env t rd rs w)) =
     (if store_answer (remediation_roadmaps_insert_error env) (store_refusal env) (rd \<noteq> ''null'') = None \<and> diagnostic_tests_update_error env = None
         \<and> (blockers (ui w) = [] \<or> blockers_detected_update_error env = None)
      then Stage_roadmap else stage (ui w))"
  by (simp add: persist_completion_def small_defs Let_def split: option.splits)

lemma row_id_mark:
  "diagnostic_tests_row.row_id \<circ>
     (\<lambda>r. if diagnostic_tests_row.row_id r = t
          then r\<lparr>status := Completed, overall_severity := sev\<rparr> else r)
   = diagnostic_tests_row.row_id"
  by (rule ext) simp

lemma test_id_confirm:
  "blockers_detected_row.test_id \<circ>
     (\<lambda>r. if blockers_detected_row.test_id r = t then r\<lparr>is_confirmed := True\<rparr> else r)
   = blockers_detected_row.test_id"
  by (rule ext) simp


lemma confirm_blockers_ids:
  "test_ids (confirm_blockers t d) = test_ids d"
  "blocker_test_ids (confirm_blockers t d) = blocker_test_ids d"
  "next_id (confirm_blockers t d) = next_id d"
  "diagnostic_tests (confirm_blockers t d) = diagnostic_tests d"
  by (simp_all add: test_ids_def blocker_test_ids_def confirm_blockers_def test_id_confirm
        del: set_map)

lemma ids_cong:
  "diagnostic_tests d = diagnostic_tests d' \<Longrightarrow> test_ids d = test_ids d'"
  "blockers_detected d = blockers_detected d' \<Longrightarrow> blocker_test_ids d = blocker_test_ids d'"
  by (simp_all only: test_ids_def blocker_test_ids_def)

lemma persist_completion_db:
  "next_id (db (persist_completion env t rd rs w)) = next_id (db w)"
  "students (db (persist_completion env t rd rs w)) = students (db w)"
  "test_responses (db (persist_completion env t rd rs w)) = test_responses (db w)"
  by (simp_all add: persist_completion_def small_defs Let_def mark_completed_def
        confirm_blockers_def split: option.splits)

lemma persist_completion_blockers_detected:
  "blockers_detected (db (persist_completion env t rd rs w)) =
     (if store_answer (remediation_roadmaps_insert_error env) (store_refusal env) (rd \<noteq> ''null'') = None \<and> diagnostic_tests_update_error env = None
         \<and> blockers (ui w) \<noteq> [] \<and> blockers_detected_update_error env = None
      then blockers_detected (confirm_blockers t (db w))
      else blockers_detected (db w))"
  by (simp add: persist_completion_def small_defs Let_def mark_completed_def
        confirm_blockers_def split: option.splits)

lemma persist_completion_tests:
  "diagnostic_tests (db (persist_completion env t rd rs w)) =
     (if store_answer (remediation_roadmaps_insert_error env) (store_refusal env) (rd \<noteq> ''null'') = None \<and> diagnostic_tests_update_error env = None
      then diagnostic_tests (mark_completed t (overallSeverity (blockers (ui w)) rs) (db w))
      else diagnostic_tests (db w))"
  by (simp add: persist_completion_def small_defs Let_def mark_completed_def
        confirm_blockers_def split: option.splits)

lemma persist_completion_roadmaps:
  "remediation_roadmaps (db (persist_completion env t rd rs w)) =
     (if store_answer (remediation_roadmaps_insert_error env) (store_refusal env) (rd \<noteq> ''null'') = None
      then remediation_roadmaps (db w)
           @ [\<lparr>remediation_roadmaps_row.test_id = t, roadmap_data = rd\<rparr>]
      else remediation_roadmaps (db w))"
  by (simp add: persist_completion_def small_defs Let_def mark_completed_def
        confirm_blockers_def split: option.splits)

lemma confirm_blockers_rows:
  "blockers_detected (confirm_blockers t d) =
     map (\<lambda>r. if blockers_detected_row.test_id r = t then r\<lparr>is_confirmed := True\<rparr> else r)
       (blockers_detected d)"
  by (simp add: confirm_blockers_def)

lemma persist_completion_ids:
  "test_ids (db (persist_completion env t rd rs w)) = test_ids (db w)"
  "blocker_test_ids (db (persist_completion env t rd rs w)) = blocker_test_ids (db w)"
  by (simp_all add: persist_completion_def small_defs Let_def mark_completed_def
        confirm_blockers_def test_ids_def blocker_test_ids_def row_id_mark test_id_confirm
        del: set_map split: option.splits)

lemma persist_completion_unconfirmed:
  "stage (ui (persist_completion env t' rd rs w)) = Stage_roadmap
   \<or> unconfirmed t (db (persist_completion env t' rd rs w)) = unconfirmed t (db w)"
  by (simp add: persist_completion_stage persist_completion_blockers_detected unconfirmed_def)

lemma persist_completion_inv:
  assumes inv: "session_inv w" and t: "testId (ui w) = Some t"
  shows "session_inv (persist_completion env t rd rs w)"
proof (cases "stage (ui (persist_completion env t rd rs w)) = Stage_roadmap")
  case True
  with inv t show ?thesis
    unfolding session_inv_def consistent_def
    by (simp add: persist_completion_session persist_completion_db persist_completion_ids)
next
  case False
  then have st: "stage (ui (persist_completion env t rd rs w)) = stage (ui w)"
    by (simp add: persist_completion_stage split: if_splits)
  have un: "unconfirmed t (db (persist_completion env t rd rs w)) = unconfirmed t (db w)"
    using False persist_completion_unconfirmed[of env t rd rs w t] by simp
  from inv t show ?thesis
    unfolding session_inv_def consistent_def
    by (simp add: persist_completion_session persist_completion_db persist_completion_ids st un)
qed

lemma generateRoadmap_cases:
  fixes env rs w
  defines "w0 \<equiv> emit (Fetch (Generate_roadmap (diagnostic.age (ui w)) (blockers (ui w)) rs)) w"
  shows "(\<exists>title msg. generateRoadmap env rs w = setLoading False (emit (Toast title msg) w0))
       \<or> (\<exists>code rd. generate_roadmap env = Response code (Json rd) \<and> ok code
             \<and> testId (ui w) = None
             \<and> generateRoadmap env rs w = complete (w0\<lparr>ui := (ui w0)\<lparr>roadmap := Some rd\<rparr>\<rparr>))
       \<or> (\<exists>code rd t. generate_roadmap env = Response code (Json rd) \<and> ok code
             \<and> testId (ui w) = Some t
             \<and> generateRoadmap env rs w =
                 persist_completion env t rd rs (w0\<lparr>ui := (ui w0)\<lparr>roadmap := Some rd\<rparr>\<rparr>))"
  unfolding w0_def generateRoadmap_def Let_def catch_toast_def
  by (cases "generate_roadmap env") (auto split: option.splits body.splits)

lemma generateRoadmap_session:
  "testId (ui (generateRoadmap env rs w)) = testId (ui w)"
  "blockers (ui (generateRoadmap env rs w)) = blockers (ui w)"
  "responses (ui (generateRoadmap env rs w)) = responses (ui w)"
  "questions (ui (generateRoadmap env rs w)) = questions (ui w)"
  "currentQuestion (ui (generateRoadmap env rs w)) = currentQuestion (ui w)"
  using generateRoadmap_cases[of env rs w]
  by (auto simp: persist_completion_session small_defs)


lemma generateRoadmap_db:
  "next_id (db (generateRoadmap env rs w)) = next_id (db w)"
  "students (db (generateRoadmap env rs w)) = students (db w)"
  "test_responses (db (generateRoadmap env rs w)) = test_responses (db w)"
  "test_ids (db (generateRoadmap env rs w)) = test_ids (db w)"
  "blocker_test_ids (db (generateRoadmap env rs w)) = blocker_test_ids (db w)"
  using generateRoadmap_cases[of env rs w]
  by (auto simp: persist_completion_db persist_completion_ids small_defs)





lemma requests_append: "requests (xs @ ys) = requests xs @ requests ys"
  by (induction xs rule: requests.induct) simp_all


lemma saveResponses_frame:
  "ui (saveResponses env rs w) = ui w"
  "next_id (db (saveResponses env rs w)) = next_id (db w)"
  "diagnostic_tests (db (saveResponses env rs w)) = diagnostic_tests (db w)"
  "blockers_detected (db (saveResponses env rs w)) = blockers_detected (db w)"
  "students (db (saveResponses env rs w)) = students (db w)"
  "remediation_roadmaps (db (saveResponses env rs w)) = remediation_roadmaps (db w)"
  "requests (effects (saveResponses env rs w)) = requests (effects w)"
  by (simp_all add: saveResponses_def small_defs requests_append split: option.splits)


lemma saveBlockers_frame:
  "ui (saveBlockers env bs w) = ui w"
  "next_id (db (saveBlockers env bs w)) = next_id (db w)"
  "diagnostic_tests (db (saveBlockers env bs w)) = diagnostic_tests (db w)"
  "students (db (saveBlockers env bs w)) = students (db w)"
  "test_responses (db (saveBlockers env bs w)) = test_responses (db w)"
  "remediation_roadmaps (db (saveBlockers env bs w)) = remediation_roadmaps (db w)"
  "requests (effects (saveBlockers env bs w)) = requests (effects w)"
  by (simp_all add: saveBlockers_def small_defs requests_append split: option.splits)



lemma received_confirmatory_frame:
  "db (received_confirmatory reply ni primary rs w) = db w"
  "testId (ui (received_confirmatory reply ni primary rs w)) = testId (ui w)"
  "blockers (ui (received_confirmatory reply ni primary rs w)) = blockers (ui w)"
  "responses (ui (received_confirmatory reply ni primary rs w)) = responses (ui w)"
  "requests (effects (received_confirmatory reply ni primary rs w)) = requests (effects w)"
  by (simp_all add: received_confirmatory_def small_defs requests_append
        split: option.splits fetched.splits body.splits questions_json.splits)

lemma received_confirmatory_stage:
  "stage (ui (received_confirmatory reply ni primary rs w)) = Stage_confirmatory
   \<or> stage (ui (received_confirmatory reply ni primary rs w)) = stage (ui w)"
  by (simp add: received_confirmatory_def small_defs
        split: option.splits fetched.splits body.splits questions_json.splits)















lemma handleAnswerSubmit_cases:
  assumes res: "handleAnswerSubmit env w = Inr w'"
  defines "new \<equiv> responses (ui w) @ [grade (currentQuestion (ui w)) (diagnostic.userAnswer (ui w))
                        (questions (ui w) ! currentQuestion (ui w))]"
  defines "w1 \<equiv> w\<lparr>ui := (ui w)\<lparr>responses := new, userAnswer := []\<rparr>\<rparr>"
  obtains
    (blank) "trim (diagnostic.userAnswer (ui w)) = []"
      "w' = emit (Toast ''Missing Answer'' ''Please enter your answer.'') w"
  | (main_end) "trim (diagnostic.userAnswer (ui w)) \<noteq> []"
      "currentQuestion (ui w) < length (questions (ui w))"
      "stage (ui w) = Stage_main_test" "length new = MAIN_TEST_LENGTH"
      "w' = detectBlockers env new (saveResponses env (take MAIN_TEST_LENGTH new) w1)"
  | (confirmatory_end) "trim (diagnostic.userAnswer (ui w)) \<noteq> []"
      "currentQuestion (ui w) < length (questions (ui w))"
      "stage (ui w) = Stage_confirmatory"
      "length new = MAIN_TEST_LENGTH + CONFIRMATORY_LENGTH"
      "w' = generateRoadmap env new (saveResponses env (drop MAIN_TEST_LENGTH new) w1)"
  | (next_question) "trim (diagnostic.userAnswer (ui w)) \<noteq> []"
      "currentQuestion (ui w) < length (questions (ui w))"
      "\<not> (stage (ui w) = Stage_main_test \<and> length new = MAIN_TEST_LENGTH)"
      "\<not> (stage (ui w) = Stage_confirmatory
          \<and> length new = MAIN_TEST_LENGTH + CONFIRMATORY_LENGTH)"
      "w' = w1\<lparr>ui := (ui w1)\<lparr>currentQuestion := currentQuestion (ui w) + 1\<rparr>\<rparr>"
  using res unfolding handleAnswerSubmit_def Let_def new_def w1_def
  by (auto simp: MAIN_TEST_LENGTH_def CONFIRMATORY_LENGTH_def split: if_splits)

lemma errorRate_nonempty:
  "allResponses \<noteq> [] \<Longrightarrow>
   errorRate allResponses =
     Some (of_nat (incorrectCount allResponses) / of_nat (length allResponses))"
  by (simp add: errorRate_def incorrectCount_def)

lemma overallSeverity_score:
  assumes "allResponses \<noteq> []"
  shows "overallSeverity bs allResponses =
           score (length bs)
             (of_nat (incorrectCount allResponses) / of_nat (length allResponses))"
  unfolding overallSeverity_def score_def Let_def errorRate_nonempty[OF assms] exceeds.simps
  by (rule refl)

lemma mark_completed_row:
  assumes "row \<in> set (diagnostic_tests (mark_completed t sev d))"
    and "diagnostic_tests_row.row_id row = t"
  shows "overall_severity row = sev \<and> status row = Completed"
proof -
  from assms(1) obtain r where r: "r \<in> set (diagnostic_tests d)"
    and row: "row = (if diagnostic_tests_row.row_id r = t
                     then r\<lparr>status := Completed, overall_severity := sev\<rparr> else r)"
    unfolding mark_completed_def by auto
  show ?thesis
  proof (cases "diagnostic_tests_row.row_id r = t")
    case True
    with row show ?thesis by simp
  next
    case False
    with row assms(2) show ?thesis by simp
  qed
qed



lemma generateRoadmap_elim:
  obtains
    (toast) title msg where
      "generateRoadmap env rs w =
         setLoading False (emit (Toast title msg)
           (emit (Fetch (Generate_roadmap (diagnostic.age (ui w)) (blockers (ui w)) rs)) w))"
  | (unsaved) "testId (ui w) = None"
  | (saved) code rd t where "generate_roadmap env = Response code (Json rd)" "ok code"
      "testId (ui w) = Some t"
      "generateRoadmap env rs w =
         persist_completion env t rd rs
           ((emit (Fetch (Generate_roadmap (diagnostic.age (ui w)) (blockers (ui w)) rs)) w)
              \<lparr>ui := (ui (emit (Fetch (Generate_roadmap (diagnostic.age (ui w))
                                        (blockers (ui w)) rs)) w))\<lparr>roadmap := Some rd\<rparr>\<rparr>)"
proof -
  from generateRoadmap_cases[of env rs w] show thesis
  proof (elim disjE exE conjE)
    fix title msg
    assume "generateRoadmap env rs w =
         setLoading False (emit (Toast title msg)
           (emit (Fetch (Generate_roadmap (diagnostic.age (ui w)) (blockers (ui w)) rs)) w))"
    then show thesis by (rule toast)
  next
    fix code rd
    assume "testId (ui w) = None"
    then show thesis by (rule unsaved)
  next
    fix code rd t
    assume "generate_roadmap env = Response code (Json rd)" "ok code" "testId (ui w) = Some t"
      "generateRoadmap env rs w =
         persist_completion env t rd rs
           ((emit (Fetch (Generate_roadmap (diagnostic.age (ui w)) (blockers (ui w)) rs)) w)
              \<lparr>ui := (ui (emit (Fetch (Generate_roadmap (diagnostic.age (ui w))
                                        (blockers (ui w)) rs)) w))\<lparr>roadmap := Some rd\<rparr>\<rparr>)"
    then show thesis by (rule saved)
  qed
qed

lemma generateRoadmap_completed:
  assumes reached: "stage (ui (generateRoadmap env rs w)) = Stage_roadmap"
    and before: "stage (ui w) \<noteq> Stage_roadmap"
    and t: "testId (ui w) = Some t"
  shows "\<exists>code rd. generate_roadmap env = Response code (Json rd) \<and> ok code
           \<and> roadmap (ui (generateRoadmap env rs w)) = Some rd
           \<and> diagnostic_tests (db (generateRoadmap env rs w)) =
               diagnostic_tests (mark_completed t (overallSeverity (blockers (ui w)) rs) (db w))
           \<and> blockers_detected (db (generateRoadmap env rs w)) =
               (if blockers (ui w) = [] then blockers_detected (db w)
                else blockers_detected (confirm_blockers t (db w)))
           \<and> remediation_roadmaps (db (generateRoadmap env rs w)) =
               remediation_roadmaps (db w)
               @ [\<lparr>remediation_roadmaps_row.test_id = t, roadmap_data = rd\<rparr>]"
proof (cases rule: generateRoadmap_elim[of env rs w])
  case (toast title msg)
  then show ?thesis using reached before by (simp add: small_defs)
next
  case unsaved
  then show ?thesis using t by simp
next
  case (saved code rd t')
  have tt: "t' = t" using saved(3) t by simp
  have fine: "store_answer (remediation_roadmaps_insert_error env) (store_refusal env) (rd \<noteq> ''null'') = None \<and> diagnostic_tests_update_error env = None
       \<and> (blockers (ui w) = [] \<or> blockers_detected_update_error env = None)"
    using reached before unfolding saved(4) persist_completion_stage
    by (simp add: small_defs split: if_splits)
  show ?thesis
    using saved(1,2) fine unfolding saved(4) tt
    by (auto simp: persist_completion_session persist_completion_tests
          persist_completion_blockers_detected persist_completion_roadmaps small_defs
          mark_completed_def confirm_blockers_def)
qed

lemma detectBlockers_stage:
  assumes "detectedBlockers rs \<noteq> []"
  shows "stage (ui (detectBlockers env rs w)) = Stage_confirmatory
       \<or> stage (ui (detectBlockers env rs w)) = stage (ui w)"
proof -
  obtain b bs where "detectedBlockers rs = b # bs"
    using assms by (cases "detectedBlockers rs") auto
  then show ?thesis
    using received_confirmatory_stage
      [of "generate_confirmatory_test env" "not_iterable env" "blocker.blocker_name b" rs
          "emit (Fetch (Generate_confirmatory_test (diagnostic.age (ui w)) (blocker.blocker_name b)))
             (saveBlockers env (b # bs) (w\<lparr>ui := (ui w)\<lparr>blockers := b # bs\<rparr>\<rparr>))"]
    by (simp add: detectBlockers_def Let_def emit_def saveBlockers_frame)
qed

text \<open>A step that ends in the stage roadmap is a run of generateRoadmap on the whole history.\<close>

lemma completion_step:
  assumes res: "handleAnswerSubmit env w = Inr w'"
    and before: "stage (ui w) \<noteq> Stage_roadmap"
    and reached: "stage (ui w') = Stage_roadmap"
  obtains w2 where "ui w2 = (ui w)\<lparr>responses := responses (ui w'), userAnswer := []\<rparr>"
    and "diagnostic_tests (db w2) = diagnostic_tests (db w)"
    and "blockers_detected (db w2) = blockers_detected (db w)"
    and "remediation_roadmaps (db w2) = remediation_roadmaps (db w)"
    and "w' = generateRoadmap env (responses (ui w')) w2"
    and "responses (ui w') \<noteq> []"
    and "stage (ui w) = Stage_main_test \<longrightarrow> detectedBlockers (responses (ui w')) = []"
  using res
proof (cases rule: handleAnswerSubmit_cases)
  case blank
  then show ?thesis using before reached by (simp add: emit_def)
next
  case main_end
  let ?new = "responses (ui w) @ [grade (currentQuestion (ui w)) (diagnostic.userAnswer (ui w))
                        (questions (ui w) ! currentQuestion (ui w))]"
  let ?w1 = "w\<lparr>ui := (ui w)\<lparr>responses := ?new, userAnswer := []\<rparr>\<rparr>"
  let ?w2 = "saveResponses env (take MAIN_TEST_LENGTH ?new) ?w1"
  have none: "detectedBlockers ?new = []"
  proof (rule ccontr)
    assume "detectedBlockers ?new \<noteq> []"
    then have "stage (ui w') = Stage_confirmatory \<or> stage (ui w') = stage (ui ?w2)"
      unfolding main_end(5) by (rule detectBlockers_stage)
    then show False
      using reached main_end(3) by (simp add: saveResponses_frame)
  qed
  then have w': "w' = generateRoadmap env ?new ?w2"
    unfolding main_end(5) by (simp add: detectBlockers_def)
  then have "responses (ui w') = ?new"
    by (simp add: generateRoadmap_session saveResponses_frame)
  with w' none show ?thesis
    by (intro that[of ?w2]) (simp_all add: saveResponses_frame)
next
  case confirmatory_end
  let ?new = "responses (ui w) @ [grade (currentQuestion (ui w)) (diagnostic.userAnswer (ui w))
                        (questions (ui w) ! currentQuestion (ui w))]"
  let ?w1 = "w\<lparr>ui := (ui w)\<lparr>responses := ?new, userAnswer := []\<rparr>\<rparr>"
  let ?w2 = "saveResponses env (drop MAIN_TEST_LENGTH ?new) ?w1"
  have "responses (ui w') = ?new"
    unfolding confirmatory_end(5) by (simp add: generateRoadmap_session saveResponses_frame)
  with confirmatory_end show ?thesis
    by (intro that[of ?w2]) (simp_all add: saveResponses_frame)
next
  case next_question
  then show ?thesis using before reached by simp
qed

lemma completion_rows:
  assumes res: "handleAnswerSubmit env w = Inr w'"
    and before: "stage (ui w) \<noteq> Stage_roadmap"
    and reached: "stage (ui w') = Stage_roadmap"
    and t: "testId (ui w) = Some t"
  shows "\<exists>code rd. generate_roadmap env = Response code (Json rd) \<and> ok code
           \<and> roadmap (ui w') = Some rd
           \<and> testId (ui w') = Some t \<and> blockers (ui w') = blockers (ui w)
           \<and> responses (ui w') \<noteq> []
           \<and> (stage (ui w) = Stage_main_test \<longrightarrow> detectedBlockers (responses (ui w')) = [])
           \<and> diagnostic_tests (db w') =
               diagnostic_tests (mark_completed t
                 (overallSeverity (blockers (ui w)) (responses (ui w'))) (db w))
           \<and> blockers_detected (db w') =
               (if blockers (ui w) = [] then blockers_detected (db w)
                else blockers_detected (confirm_blockers t (db w)))
           \<and> remediation_roadmaps (db w') =
               remediation_roadmaps (db w)
               @ [\<lparr>remediation_roadmaps_row.test_id = t, roadmap_data = rd\<rparr>]"
proof -
  obtain w2 where ui2: "ui w2 = (ui w)\<lparr>responses := responses (ui w'), userAnswer := []\<rparr>"
    and tests2: "diagnostic_tests (db w2) = diagnostic_tests (db w)"
    and rows2: "blockers_detected (db w2) = blockers_detected (db w)"
    and maps2: "remediation_roadmaps (db w2) = remediation_roadmaps (db w)"
    and w': "w' = generateRoadmap env (responses (ui w')) w2"
    and nonempty: "responses (ui w') \<noteq> []"
    and none: "stage (ui w) = Stage_main_test \<longrightarrow> detectedBlockers (responses (ui w')) = []"
    using res before reached by (rule completion_step)
  have st2: "stage (ui w2) \<noteq> Stage_roadmap" and t2: "testId (ui w2) = Some t"
    and b2: "blockers (ui w2) = blockers (ui w)"
    using before t by (simp_all add: ui2)
  have reached2: "stage (ui (generateRoadmap env (responses (ui w')) w2)) = Stage_roadmap"
    using reached w' by simp
  from generateRoadmap_completed[OF reached2 st2 t2]
  obtain code rd where "generate_roadmap env = Response code (Json rd)" "ok code"
    "roadmap (ui (generateRoadmap env (responses (ui w')) w2)) = Some rd"
    "diagnostic_tests (db (generateRoadmap env (responses (ui w')) w2)) =
       diagnostic_tests (mark_completed t
         (overallSeverity (blockers (ui w2)) (responses (ui w'))) (db w2))"
    "blockers_detected (db (generateRoadmap env (responses (ui w')) w2)) =
       (if blockers (ui w2) = [] then blockers_detected (db w2)
        else blockers_detected (confirm_blockers t (db w2)))"
    "remediation_roadmaps (db (generateRoadmap env (responses (ui w')) w2)) =
       remediation_roadmaps (db w2)
       @ [\<lparr>remediation_roadmaps_row.test_id = t, roadmap_data = rd\<rparr>]"
    by blast
  moreover have "testId (ui w') = Some t" and "blockers (ui w') = blockers (ui w)"
    using w' generateRoadmap_session(1,2)[of env "responses (ui w')" w2] t2 b2 by simp_all
  moreover have "diagnostic_tests (mark_completed t sev (db w2)) =
                 diagnostic_tests (mark_completed t sev (db w))" for sev
    by (simp add: mark_completed_def tests2)
  moreover have "blockers_detected (confirm_blockers t (db w2)) =
                 blockers_detected (confirm_blockers t (db w))"
    by (simp add: confirm_blockers_def rows2)
  ultimately show ?thesis
    using nonempty none w' b2 rows2 maps2 by (metis (no_types, lifting))
qed

lemma completed_row_severity:
  assumes step: "handleAnswerSubmit env w = Inr w'" "stage (ui w) \<noteq> Stage_roadmap"
      "stage (ui w') = Stage_roadmap" "testId (ui w) = Some t"
    and row: "row \<in> set (diagnostic_tests (db w'))"
    and id: "diagnostic_tests_row.row_id row = t"
  shows "overall_severity row =
            score (length (blockers (ui w')))
              (of_nat (incorrectCount (responses (ui w')))
               / of_nat (length (responses (ui w'))))"
proof -
  from step completion_rows[of env w w' t]
  have b: "blockers (ui w') = blockers (ui w)" and n: "responses (ui w') \<noteq> []"
    and tests: "diagnostic_tests (db w') =
               diagnostic_tests (mark_completed t
                 (overallSeverity (blockers (ui w)) (responses (ui w'))) (db w))"
    by blast+
  from row id have "overall_severity row = overallSeverity (blockers (ui w)) (responses (ui w'))"
    unfolding tests using mark_completed_row by blast
  then show ?thesis
    using overallSeverity_score[OF n] b by simp
qed

lemma detectBlockers_requests:
  assumes "detectedBlockers rs = b # bs"
  shows "requests (effects (detectBlockers env rs w)) =
           requests (effects w)
           @ [Generate_confirmatory_test (diagnostic.age (ui w)) (blocker.blocker_name b)]"
  using assms
  by (simp add: detectBlockers_def Let_def received_confirmatory_frame saveBlockers_frame
        emit_def requests_append)

























lemma persist_completion_ui:
  assumes "ui v = ui w"
  shows "ui (persist_completion (env\<lparr>test_responses_insert_error := e\<rparr>) t rd rs v)
           = ui (persist_completion env t rd rs w)"
  using assms
  by (simp add: persist_completion_def small_defs Let_def split: option.splits)

lemma generateRoadmap_ui:
  assumes "ui v = ui w"
  shows "ui (generateRoadmap (env\<lparr>test_responses_insert_error := e\<rparr>) rs v)
           = ui (generateRoadmap env rs w)"
proof -
  have p: "ui (persist_completion (env\<lparr>test_responses_insert_error := e\<rparr>) t rd rs
                 (v\<lparr>ui := u, effects := x\<rparr>))
             = ui (persist_completion env t rd rs (w\<lparr>ui := u, effects := y\<rparr>))" for t rd u x y
    by (rule persist_completion_ui) simp
  show ?thesis
    using assms
    by (auto simp: generateRoadmap_def small_defs Let_def
          split: option.splits fetched.splits body.splits intro!: persist_completion_ui)
qed

lemma received_confirmatory_ui:
  assumes "ui v = ui w"
  shows "ui (received_confirmatory reply ni primary rs v)
           = ui (received_confirmatory reply ni primary rs w)"
  using assms
  by (simp add: received_confirmatory_def small_defs
        split: option.splits fetched.splits body.splits questions_json.splits)

lemma detectBlockers_ui:
  assumes "ui v = ui w"
  shows "ui (detectBlockers (env\<lparr>test_responses_insert_error := e\<rparr>) rs v)
           = ui (detectBlockers env rs w)"
proof (cases "detectedBlockers rs")
  case Nil
  then show ?thesis
    using assms by (simp add: detectBlockers_def generateRoadmap_ui)
next
  case (Cons b bs)
  have "ui (received_confirmatory reply ni p rs (emit f (saveBlockers env1 bs' (v\<lparr>ui := u\<rparr>))))
          = ui (received_confirmatory reply ni p rs (emit f (saveBlockers env2 bs' (w\<lparr>ui := u\<rparr>))))"
    for reply ni p f env1 env2 bs' u
    by (rule received_confirmatory_ui) (simp add: emit_def saveBlockers_frame)
  then show ?thesis
    using assms by (simp add: detectBlockers_def Cons Let_def)
qed

lemma saveResponses_failed:
  assumes "testId (ui w) = Some t" and "test_responses_insert_error env = Some message"
  shows "saveResponses env rs w = emit (Console_error ''Error saving responses:'' message) w"
  using assms by (simp add: saveResponses_def store_answer_def)

lemma handleAnswerSubmit_ui:
  "map_sum id ui (handleAnswerSubmit (env\<lparr>test_responses_insert_error := e\<rparr>) w)
     = map_sum id ui (handleAnswerSubmit env w)"
proof -
  have d: "ui (detectBlockers (env\<lparr>test_responses_insert_error := e\<rparr>) rs
                 (saveResponses (env\<lparr>test_responses_insert_error := e\<rparr>) xs v))
             = ui (detectBlockers env rs (saveResponses env xs v))" for rs xs v
    by (rule detectBlockers_ui) (simp add: saveResponses_frame)
  have g: "ui (generateRoadmap (env\<lparr>test_responses_insert_error := e\<rparr>) rs
                 (saveResponses (env\<lparr>test_responses_insert_error := e\<rparr>) xs v))
             = ui (generateRoadmap env rs (saveResponses env xs v))" for rs xs v
    by (rule generateRoadmap_ui) (simp add: saveResponses_frame)
  show ?thesis
    by (simp add: handleAnswerSubmit_def Let_def d g)
qed

section \<open>The example sessions: lemmas\<close>

lemma number_sense_question_simps:
  "question.correctAnswer number_sense_question = ''5''"
  "question.construct number_sense_question = ''Number Sense''"
  "question.difficultyLevel number_sense_question = 1"
  by (simp_all add: number_sense_question_def)

lemma grade_simps:
  "questionNumber (grade i a q) = i + 1"
  "isCorrect (grade i a q) = evaluateAnswer a (question.correctAnswer q)"
  "response.construct (grade i a q) = question.construct q"
  "response.difficultyLevel (grade i a q) = question.difficultyLevel q"
  by (simp_all add: grade_def)

lemma trim_Ann: "trim ''Ann'' = ''Ann''"
  by (simp add: trim_def isWhiteSpace_def)

lemmas world_defs =
  trim_Ann
  mounted_page_def initial_ui_def empty_store_def provider_def rate_limited_questions_def
  rate_limited_confirmatory_def short_batch_def failing_save_def named_page_def
  enrolled_store_def ninth_def fourteenth_def
  enrol_def answer_def nine_answers_def five_more_answers_def
  ten_questions_def five_questions_def number_sense_question_simps upt_conv_Cons

lemmas handler_defs =
  handleAgeSubmit_def handleStudentInfoSubmit_def insert_student_def insert_test_def
  isInteger_def store_answer_def received_questions_def handleAnswerSubmit_def
  grade_simps saveResponses_def saveBlockers_def detectBlockers_def received_confirmatory_def
  generateRoadmap_def persist_completion_def mark_completed_def confirm_blockers_def
  complete_def catch_toast_def emit_def setLoading_def setStage_def ok_def
  MAIN_TEST_LENGTH_def CONFIRMATORY_LENGTH_def Let_def

lemmas detect_defs =
  evaluateAnswer_def trim_def toLowerCase_def toLowerChar_def isWhiteSpace_def
  detectedBlockers_def constructErrors_def assign_def incremented_def
  objectPrototype_def Object_entries_def isArrayIndex_def isDigit_def indexValue_def
  List.map_filter_simps overallSeverity_def errorRate_def

lemma run_append:
  "run (xs @ ys) w = (case run xs w of Inl e \<Rightarrow> Inl e | Inr w' \<Rightarrow> run ys w')"
  by (induction xs w rule: run.induct) (auto split: sum.splits)



lemma nine_answers_run:
  assumes "trim a \<noteq> []"
  shows "run (nine_answers a) mounted_page = Inr (ninth a)"
  using assms by (simp add: world_defs handler_defs)


lemma trim_digit: "trim ''4'' = ''4''" "trim ''5'' = ''5''"
  by (simp_all add: trim_def isWhiteSpace_def)

lemma grade_nine:
  "grade 9 a q = grade (Suc (Suc (Suc (Suc (Suc (Suc (Suc (Suc (Suc 0))))))))) a q"
  by (simp add: eval_nat_numeral)



lemma detectBlockers_test_responses:
  "test_responses (db (detectBlockers env rs w)) = test_responses (db w)"
  by (simp add: detectBlockers_def Let_def generateRoadmap_db received_confirmatory_frame
        emit_def saveBlockers_frame split: list.splits)

lemma saveResponses_nothing_stored:
  assumes "test_responses_insert_error env = Some message"
  shows "test_responses (db (saveResponses env rs w)) = test_responses (db w)"
  using assms by (simp add: saveResponses_def store_answer_def emit_def split: option.splits)

lemma failed_save_stores_nothing:
  assumes "handleAnswerSubmit env w = Inr w'"
    and "test_responses_insert_error env = Some message"
  shows "test_responses (db w') = test_responses (db w)"
  using assms(1)
proof (cases rule: handleAnswerSubmit_cases)
  case blank
  then show ?thesis by (simp add: emit_def)
next
  case main_end
  then show ?thesis
    by (simp add: detectBlockers_test_responses saveResponses_nothing_stored[OF assms(2)])
next
  case confirmatory_end
  then show ?thesis
    by (simp add: generateRoadmap_db saveResponses_nothing_stored[OF assms(2)])
next
  case next_question
  then show ?thesis by simp
qed

lemma saveBlockers_failed:
  assumes "testId (ui w) = Some t" and "blockers_detected_insert_error env = Some message"
  shows "saveBlockers env bs w = emit (Console_error ''Error saving blockers:'' message) w"
  using assms by (simp add: saveBlockers_def store_answer_def)



lemma no_second_confirmatory_request:
  assumes "stage (ui w) = Stage_main_test"
    and "MAIN_TEST_LENGTH \<le> length (responses (ui w))"
    and "handleAnswerSubmit env w = Inr w'"
  shows "stage (ui w') = Stage_main_test" and "requests (effects w') = requests (effects w)"
    and "questions (ui w') = questions (ui w)"
    and "length (responses (ui w)) \<le> length (responses (ui w'))"
proof -
  have "stage (ui w') = Stage_main_test \<and> requests (effects w') = requests (effects w)
      \<and> questions (ui w') = questions (ui w)
      \<and> length (responses (ui w)) \<le> length (responses (ui w'))"
    using assms(3)
  proof (cases rule: handleAnswerSubmit_cases)
    case blank
    then show ?thesis using assms(1) by (simp add: emit_def requests_append)
  next
    case main_end
    then show ?thesis using assms(2) by simp
  next
    case confirmatory_end
    then show ?thesis using assms(1) by simp
  next
    case next_question
    then show ?thesis using assms(1) by simp
  qed
  then show "stage (ui w') = Stage_main_test" and "requests (effects w') = requests (effects w)"
    and "questions (ui w') = questions (ui w)"
    and "length (responses (ui w)) \<le> length (responses (ui w'))"
    by simp_all
qed

lemma submitted:
  assumes "trim (diagnostic.userAnswer (ui w)) \<noteq> []"
    and "currentQuestion (ui w) < length (questions (ui w))"
  shows "handleAnswerSubmit env w = Inr (projr (handleAnswerSubmit env w))"
  using assms by (simp add: handleAnswerSubmit_def Let_def)

lemma ninth_submitted:
  assumes "trim a \<noteq> []"
  shows "handleAnswerSubmit env (ninth a) = Inr (projr (handleAnswerSubmit env (ninth a)))"
  by (rule submitted) (simp_all add: ninth_def ten_questions_def assms)

lemma fourteenth_submitted:
  "handleAnswerSubmit env fourteenth = Inr (projr (handleAnswerSubmit env fourteenth))"
  by (rule submitted)
     (simp_all add: fourteenth_def ten_questions_def five_questions_def trim_digit)



lemma finished_blocked_summary:
  "map (\<lambda>w. (stage (ui w), testId (ui w), length (blockers (ui w)),
              length (responses (ui w)), incorrectCount (responses (ui w)),
              roadmap (ui w),
              map diagnostic_tests_row.row_id (diagnostic_tests (db w)),
              map overall_severity (diagnostic_tests (db w)),
              map status (diagnostic_tests (db w)),
              map blockers_detected_row.test_id (blockers_detected (db w)),
              map is_confirmed (blockers_detected (db w)),
              remediation_roadmaps (db w)))
     [finished_blocked]
   = [(Stage_roadmap, Some 1, 1, 15, 15, Some ''{}'', [1], [Severe], [Completed], [1], [True],
       [\<lparr>remediation_roadmaps_row.test_id = 1, roadmap_data = ''{}''\<rparr>])]"
  unfolding finished_blocked_def
  by (simp add: world_defs handler_defs detect_defs incorrectCount_def)

lemmas finished_blocked_facts = finished_blocked_summary[simplified]

lemma fourteenth_facts:
  "stage (ui fourteenth) = Stage_confirmatory"
  "testId (ui fourteenth) = Some 1"
  "map blockers_detected_row.test_id (blockers_detected (db fourteenth)) = [1]"
  "map is_confirmed (blockers_detected (db fourteenth)) = [False]"
  by (simp_all add: fourteenth_def enrolled_store_def)

lemma unsaved_summary:
  "map (\<lambda>w. (stage (ui w), length (responses (ui w)), length (questions (ui w)),
              test_responses (db w), effects w))
     [unsaved]
   = [(Stage_confirmatory, 10, 15, [],
       [Fetch (Generate_question (Some 8) 10),
        Console_error ''Error saving responses:'' ''connection lost'',
        Console_error ''Error saving blockers:'' ''connection lost'',
        Fetch (Generate_confirmatory_test (Some 8) ''Number Sense''),
        Toast ''Blocker Detected''
          (''We've identified potential difficulty with '' @ ''Number Sense''
           @ ''. Let's confirm with a few more questions.'')])]"
  unfolding unsaved_def
  by (simp add: world_defs handler_defs detect_defs grade_nine)

lemmas unsaved_facts = unsaved_summary[simplified]

lemma stuck_summary:
  "map (\<lambda>w. (stage (ui w), length (questions (ui w)), currentQuestion (ui w),
              length (responses (ui w)), length (test_responses (db w)),
              map blockers_detected_row.blocker_name (blockers_detected (db w))))
     [stuck]
   = [(Stage_main_test, 10, 9, 10, 10, [''Number Sense''])]"
  unfolding stuck_def
  by (simp add: world_defs handler_defs detect_defs grade_nine)

lemmas stuck_facts = stuck_summary[simplified]


lemma batch_four_of_ten_facts:
  "detectedBlockers batch_four_of_ten
     = [\<lparr>blocker.blocker_name = ''Place Value'', blocker.error_count = 2\<rparr>]"
  "incorrectCount batch_four_of_ten = 4"
  "length batch_four_of_ten = 10"
  by (simp_all add: batch_four_of_ten_def answered_def detect_defs incorrectCount_def)

lemma batch_two_blockers_facts:
  "detectedBlockers batch_two_blockers
     = [\<lparr>blocker.blocker_name = ''Place Value'', blocker.error_count = 2\<rparr>,
        \<lparr>blocker.blocker_name = ''Number Sense'', blocker.error_count = 3\<rparr>]"
  by (simp add: batch_two_blockers_def answered_def detect_defs)

lemma batch_index_name_facts:
  "detectedBlockers batch_index_name
     = [\<lparr>blocker.blocker_name = ''7'', blocker.error_count = 2\<rparr>,
        \<lparr>blocker.blocker_name = ''Zeta'', blocker.error_count = 2\<rparr>]"
  by (simp add: batch_index_name_def answered_def detect_defs)

section \<open>Blocker detection: the rule\<close>

text \<open>
  Off the names of \<^verbatim>\<open>Object.prototype\<close>, detection returns one blocker for every construct
  with at least two incorrect responses, carrying that count, and nothing else.
\<close>

lemma detectedBlockers_exact:
  "set (detectedBlockers allResponses) =
     {b. \<exists>c. \<not> inherited c \<and> 2 \<le> errorCount allResponses c
             \<and> b = \<lparr>blocker.blocker_name = c,
                     blocker.error_count = errorCount allResponses c\<rparr>}
   \<and> distinct (map blocker.blocker_name (detectedBlockers allResponses))"
  using set_detectedBlockers distinct_detectedBlockers by blast

lemmas detect_simps =
  detectedBlockers_def constructErrors_def answered_def assign_def incremented_def
  objectPrototype_def Object_entries_def isArrayIndex_def isDigit_def indexValue_def
  List.map_filter_simps errorCount_def

lemma detectedBlockers_number_sense:
  "detectedBlockers batch_number_sense =
     [\<lparr>blocker.blocker_name = ''Number Sense'', blocker.error_count = 3\<rparr>]"
  by (simp add: batch_number_sense_def detect_simps)

section \<open>The claims\<close>

subsection \<open>C1: blocker detection\<close>

text \<open>
  C1. The rule of \<^verbatim>\<open>detectBlockers\<close> is "2+ errors in same construct". Two incorrect
  responses on the construct \<^verbatim>\<open>toString\<close> are counted in the property that every object
  inherits under that name, the count becomes a text, and the construct is not promoted.
\<close>

theorem detectBlockers_misses_inherited_name:
  "errorCount batch_toString ''toString'' = 2 \<and> detectedBlockers batch_toString = []"
  by (simp add: batch_toString_def detect_simps)

subsection \<open>C2: the severity table\<close>

text \<open>
  C2. For every list of blockers and every non-empty history of responses the severity
  computed by \<^verbatim>\<open>generateRoadmap\<close> is the value of the decision table read top to bottom, at
  the number of blockers and at the error rate, the incorrect responses divided by all
  responses of the history. One blocker and an error rate of exactly 0.4 give mild. The
  severity that a completing submission stores in the row of the test is that value at the
  blockers of the session and at all its responses, main and confirmatory.
\<close>

theorem severity_follows_table:
  "(allResponses \<noteq> [] \<longrightarrow>
      overallSeverity bs allResponses =
        score (length bs)
          (of_nat (incorrectCount allResponses) / of_nat (length allResponses)))
   \<and> score 1 (4 / 10) = Mild
   \<and> (handleAnswerSubmit env w = Inr w' \<and> stage (ui w) \<noteq> Stage_roadmap
        \<and> stage (ui w') = Stage_roadmap \<and> testId (ui w) = Some t \<longrightarrow>
      (\<forall>row \<in> set (diagnostic_tests (db w')).
          diagnostic_tests_row.row_id row = t \<longrightarrow>
          overall_severity row =
            score (length (blockers (ui w')))
              (of_nat (incorrectCount (responses (ui w')))
               / of_nat (length (responses (ui w'))))))"
proof (intro conjI impI ballI)
  assume "allResponses \<noteq> []"
  then show "overallSeverity bs allResponses =
        score (length bs)
          (of_nat (incorrectCount allResponses) / of_nat (length allResponses))"
    by (rule overallSeverity_score)
next
  show "score 1 (4 / 10) = Mild"
    by (simp add: score_def)
next
  fix row
  assume "handleAnswerSubmit env w = Inr w' \<and> stage (ui w) \<noteq> Stage_roadmap
        \<and> stage (ui w') = Stage_roadmap \<and> testId (ui w) = Some t"
    and "row \<in> set (diagnostic_tests (db w'))"
    and "diagnostic_tests_row.row_id row = t"
  then show "overall_severity row =
            score (length (blockers (ui w')))
              (of_nat (incorrectCount (responses (ui w')))
               / of_nat (length (responses (ui w'))))"
    using completed_row_severity[of env w w' t row] by blast
qed

text \<open>
  A batch with one blocker and the error rate 0.4 is mild; the fifteenth wrong answer of a
  session with one blocker completes it, and the row of the test holds the value of the
  table at one blocker and the error rate 1.
\<close>

theorem severity_follows_table_witness:
  "batch_four_of_ten \<noteq> []
   \<and> length (detectedBlockers batch_four_of_ten) = 1
   \<and> (of_nat (incorrectCount batch_four_of_ten) / of_nat (length batch_four_of_ten) :: rat)
       = 4 / 10
   \<and> overallSeverity (detectedBlockers batch_four_of_ten) batch_four_of_ten = Mild
   \<and> handleAnswerSubmit provider fourteenth = Inr finished_blocked
   \<and> stage (ui fourteenth) \<noteq> Stage_roadmap
   \<and> stage (ui finished_blocked) = Stage_roadmap
   \<and> testId (ui fourteenth) = Some 1
   \<and> map diagnostic_tests_row.row_id (diagnostic_tests (db finished_blocked)) = [1]
   \<and> map overall_severity (diagnostic_tests (db finished_blocked)) = [score 1 (15 / 15)]"
proof -
  note inst = severity_follows_table
    [of batch_four_of_ten "detectedBlockers batch_four_of_ten" provider fourteenth
        finished_blocked 1]
  have nonempty: "batch_four_of_ten \<noteq> []"
    by (simp add: batch_four_of_ten_def)
  have count: "length (detectedBlockers batch_four_of_ten) = 1"
    by (simp add: batch_four_of_ten_facts)
  have rate: "(of_nat (incorrectCount batch_four_of_ten)
               / of_nat (length batch_four_of_ten) :: rat) = 4 / 10"
    by (simp add: batch_four_of_ten_facts)
  from inst nonempty have
    "overallSeverity (detectedBlockers batch_four_of_ten) batch_four_of_ten
       = score (length (detectedBlockers batch_four_of_ten))
           (of_nat (incorrectCount batch_four_of_ten) / of_nat (length batch_four_of_ten))"
    by blast
  with inst have mild:
    "overallSeverity (detectedBlockers batch_four_of_ten) batch_four_of_ten = Mild"
    unfolding count rate by simp
  have submit: "handleAnswerSubmit provider fourteenth = Inr finished_blocked"
    unfolding finished_blocked_def by (rule fourteenth_submitted)
  have before: "stage (ui fourteenth) \<noteq> Stage_roadmap" "testId (ui fourteenth) = Some 1"
    by (simp_all add: fourteenth_facts)
  have after: "stage (ui finished_blocked) = Stage_roadmap"
    by (simp add: finished_blocked_facts)
  have ids: "map diagnostic_tests_row.row_id (diagnostic_tests (db finished_blocked)) = [1]"
    by (simp add: finished_blocked_facts)
  from inst submit before after have
    "\<forall>row \<in> set (diagnostic_tests (db finished_blocked)).
        diagnostic_tests_row.row_id row = 1 \<longrightarrow>
        overall_severity row =
          score (length (blockers (ui finished_blocked)))
            (of_nat (incorrectCount (responses (ui finished_blocked)))
             / of_nat (length (responses (ui finished_blocked))))"
    by blast
  then have rows: "\<forall>row \<in> set (diagnostic_tests (db finished_blocked)).
        diagnostic_tests_row.row_id row = 1 \<longrightarrow> overall_severity row = score 1 (15 / 15)"
    by (simp add: finished_blocked_facts)
  from ids obtain row where one: "diagnostic_tests (db finished_blocked) = [row]"
    by (cases "diagnostic_tests (db finished_blocked)") auto
  with ids rows have "map overall_severity (diagnostic_tests (db finished_blocked))
      = [score 1 (15 / 15)]"
    by simp
  with nonempty count rate mild submit before after ids show ?thesis
    by blast
qed

subsection \<open>C3: a session without blockers\<close>




subsection \<open>C4: answer evaluation\<close>




subsection \<open>C5: the primary blocker\<close>

text \<open>
  C5 (as amended). The confirmatory batch is requested for the first blocker detected, the
  first entry of \<^verbatim>\<open>Object.entries(constructErrors)\<close> that was promoted. When no promoted
  construct has a name that is an array index, this is the construct of the earliest
  incorrect response among the promoted constructs. When some promoted construct has such
  a name, it is the one among them with the least index, wherever its errors occurred.
\<close>

theorem primary_blocker_is_first_entry:
  assumes "detectedBlockers allResponses = b # bs"
  shows "requests (effects (detectBlockers env allResponses w)) =
           requests (effects w)
           @ [Generate_confirmatory_test (diagnostic.age (ui w)) (blocker.blocker_name b)]
       \<and> ((\<forall>x \<in> set (b # bs). \<not> isArrayIndex (blocker.blocker_name x)) \<longrightarrow>
            (\<exists>r. earliestPromoted allResponses = Some r
                 \<and> construct r = blocker.blocker_name b))
       \<and> ((\<exists>x \<in> set (b # bs). isArrayIndex (blocker.blocker_name x)) \<longrightarrow>
            isArrayIndex (blocker.blocker_name b)
            \<and> (\<forall>x \<in> set bs. isArrayIndex (blocker.blocker_name x) \<longrightarrow>
                  indexValue (blocker.blocker_name b) \<le> indexValue (blocker.blocker_name x)))"
  using assms detectBlockers_requests[OF assms] primary_is_earliest[OF assms]
    primary_is_least_index[OF assms]
  by blast

text \<open>
  Two blockers with ordinary names: the request is for the one whose error came first. A
  blocker named \<^verbatim>\<open>7\<close> and one named \<^verbatim>\<open>Zeta\<close>: the request is for \<^verbatim>\<open>7\<close>.
\<close>

theorem primary_blocker_is_first_entry_witness:
  "detectedBlockers batch_two_blockers
     = [\<lparr>blocker.blocker_name = ''Place Value'', blocker.error_count = 2\<rparr>,
        \<lparr>blocker.blocker_name = ''Number Sense'', blocker.error_count = 3\<rparr>]
   \<and> \<not> isArrayIndex ''Place Value'' \<and> \<not> isArrayIndex ''Number Sense''
   \<and> requests (effects (detectBlockers provider batch_two_blockers mounted_page))
       = [Generate_confirmatory_test None ''Place Value'']
   \<and> map_option construct (earliestPromoted batch_two_blockers) = Some ''Place Value''
   \<and> detectedBlockers batch_index_name
     = [\<lparr>blocker.blocker_name = ''7'', blocker.error_count = 2\<rparr>,
        \<lparr>blocker.blocker_name = ''Zeta'', blocker.error_count = 2\<rparr>]
   \<and> isArrayIndex ''7'' \<and> \<not> isArrayIndex ''Zeta''
   \<and> requests (effects (detectBlockers provider batch_index_name mounted_page))
       = [Generate_confirmatory_test None ''7'']"
proof -
  note two = primary_blocker_is_first_entry
    [OF batch_two_blockers_facts, of provider mounted_page]
  note seven = primary_blocker_is_first_entry
    [OF batch_index_name_facts, of provider mounted_page]
  have idx: "\<not> isArrayIndex ''Place Value''" "\<not> isArrayIndex ''Number Sense''"
    "isArrayIndex ''7''" "\<not> isArrayIndex ''Zeta''"
    by (simp_all add: isArrayIndex_def isDigit_def indexValue_def)
  have start: "requests (effects mounted_page) = []" "diagnostic.age (ui mounted_page) = None"
    by (simp_all add: mounted_page_def initial_ui_def)
  from two have r2: "requests (effects (detectBlockers provider batch_two_blockers mounted_page))
       = [Generate_confirmatory_test None ''Place Value'']"
    by (simp add: start)
  from seven have r7: "requests (effects (detectBlockers provider batch_index_name mounted_page))
       = [Generate_confirmatory_test None ''7'']"
    by (simp add: start)
  from two idx have "\<exists>r. earliestPromoted batch_two_blockers = Some r
      \<and> construct r = ''Place Value''"
    by simp
  then have e: "map_option construct (earliestPromoted batch_two_blockers) = Some ''Place Value''"
    by auto
  from batch_two_blockers_facts batch_index_name_facts idx r2 r7 e show ?thesis
    by blast
qed

text \<open>
  The first two errors are on \<^verbatim>\<open>Zeta\<close> and the next two on \<^verbatim>\<open>7\<close>: both are promoted, the
  earliest incorrect response is on \<^verbatim>\<open>Zeta\<close>, and the confirmatory batch is requested for
  \<^verbatim>\<open>7\<close>.
\<close>

theorem primary_blocker_not_earliest:
  "map blocker.blocker_name (detectedBlockers batch_index_name) = [''7'', ''Zeta'']
   \<and> map_option construct (earliestPromoted batch_index_name) = Some ''Zeta''
   \<and> requests (effects (detectBlockers provider batch_index_name mounted_page))
       = [Generate_confirmatory_test None ''7'']"
  by (simp add: earliestPromoted_def detectBlockers_requests[OF batch_index_name_facts]
        batch_index_name_facts mounted_page_def initial_ui_def)
     (simp add: batch_index_name_def answered_def)

subsection \<open>C6: completion\<close>



subsection \<open>C7: question batches\<close>




subsection \<open>C8: rate limits\<close>




subsection \<open>C9: failed saves\<close>

text \<open>
  C9 (as amended). A failed save of the responses, or of the blockers, is written to the
  console and nothing else: the handler goes on, and the state of the page after an answer
  is the same whether the save of the responses failed or not. The responses of the stage
  are then not in the store.
\<close>

theorem save_failure_is_logged_only:
  "(testId (ui w) = Some t \<and> test_responses_insert_error env = Some message \<longrightarrow>
      saveResponses env rs w = emit (Console_error ''Error saving responses:'' message) w)
   \<and> (testId (ui w) = Some t \<and> blockers_detected_insert_error env = Some message \<longrightarrow>
      saveBlockers env bs w = emit (Console_error ''Error saving blockers:'' message) w)
   \<and> map_sum id ui (handleAnswerSubmit (env\<lparr>test_responses_insert_error := outcome\<rparr>) w)
       = map_sum id ui (handleAnswerSubmit env w)
   \<and> (handleAnswerSubmit env w = Inr w' \<and> test_responses_insert_error env = Some message \<longrightarrow>
      test_responses (db w') = test_responses (db w))"
  using saveResponses_failed[of w t env message rs] saveBlockers_failed[of w t env message bs]
    handleAnswerSubmit_ui[where env = env and e = outcome and w = w] failed_save_stores_nothing[of env w w' message]
  by blast

text \<open>
  The tenth wrong answer with a store that fails: the session enters the confirmatory
  stage as it does when the save succeeds, and no response is stored.
\<close>

theorem save_failure_is_logged_only_witness:
  "testId (ui (ninth ''4'')) = Some 1
   \<and> test_responses_insert_error failing_save = Some ''connection lost''
   \<and> blockers_detected_insert_error failing_save = Some ''connection lost''
   \<and> saveResponses failing_save (responses (ui (ninth ''4''))) (ninth ''4'')
       = emit (Console_error ''Error saving responses:'' ''connection lost'') (ninth ''4'')
   \<and> saveBlockers failing_save (detectedBlockers batch_two_blockers) (ninth ''4'')
       = emit (Console_error ''Error saving blockers:'' ''connection lost'') (ninth ''4'')
   \<and> handleAnswerSubmit failing_save (ninth ''4'') = Inr unsaved
   \<and> map_sum id ui (handleAnswerSubmit (failing_save\<lparr>test_responses_insert_error := None\<rparr>)
                       (ninth ''4''))
       = Inr (ui unsaved)
   \<and> stage (ui unsaved) = Stage_confirmatory
   \<and> test_responses (db unsaved) = test_responses (db (ninth ''4''))
   \<and> test_responses (db unsaved) = []"
proof -
  note inst = save_failure_is_logged_only
    [where w = "ninth ''4''" and t = 1 and env = failing_save
       and message = "''connection lost''" and rs = "responses (ui (ninth ''4''))"
       and bs = "detectedBlockers batch_two_blockers" and outcome = None and w' = unsaved]
  have hyps: "testId (ui (ninth ''4'')) = Some 1"
    "test_responses_insert_error failing_save = Some ''connection lost''"
    "blockers_detected_insert_error failing_save = Some ''connection lost''"
    by (simp_all add: ninth_def failing_save_def provider_def)
  have submit: "handleAnswerSubmit failing_save (ninth ''4'') = Inr unsaved"
    unfolding unsaved_def by (rule ninth_submitted) (simp add: trim_digit)
  from inst hyps have logged:
    "saveResponses failing_save (responses (ui (ninth ''4''))) (ninth ''4'')
       = emit (Console_error ''Error saving responses:'' ''connection lost'') (ninth ''4'')"
    "saveBlockers failing_save (detectedBlockers batch_two_blockers) (ninth ''4'')
       = emit (Console_error ''Error saving blockers:'' ''connection lost'') (ninth ''4'')"
    by blast+
  from inst have "map_sum id ui
        (handleAnswerSubmit (failing_save\<lparr>test_responses_insert_error := None\<rparr>) (ninth ''4''))
      = map_sum id ui (handleAnswerSubmit failing_save (ninth ''4''))"
    by blast
  then have same: "map_sum id ui
        (handleAnswerSubmit (failing_save\<lparr>test_responses_insert_error := None\<rparr>) (ninth ''4''))
      = Inr (ui unsaved)"
    by (simp add: submit)
  from inst submit hyps have lost:
    "test_responses (db unsaved) = test_responses (db (ninth ''4''))"
    by blast
  have facts: "stage (ui unsaved) = Stage_confirmatory" "test_responses (db unsaved) = []"
    by (simp_all add: unsaved_facts)
  from hyps logged submit same lost facts show ?thesis
    by blast
qed

text \<open>
  The save of the ten responses of the main test fails: the session is in the confirmatory
  stage, the store holds no response, and no error was shown.
\<close>

theorem unsaved_responses_advance:
  "map_sum id (\<lambda>w. (stage (ui w), length (responses (ui w)), test_responses (db w),
                    filter (\<lambda>e. case e of Toast title description \<Rightarrow> title = ''Error''
                                  | _ \<Rightarrow> False) (effects w)))
     (run (nine_answers ''4'' @ [(AnswerSubmit, failing_save)]) mounted_page)
     = Inr (Stage_confirmatory, 10, [], [])"
  by (simp add: run_append nine_answers_run trim_digit)
     (simp add: world_defs handler_defs detect_defs grade_nine)

subsection \<open>C10: the unchecked index\<close>

text \<open>
  C10. The main test is entered with the full queue of ten questions. The tenth answer
  asks for the confirmatory batch and the provider answers 429: the stage stays, the
  cursor stays at the tenth question, and the tenth response is recorded. The answer is
  submitted again: with eleven responses the handler takes it for an ordinary answer and
  moves the cursor to 10. The next submission reads \<^verbatim>\<open>questions[10].correctAnswer\<close> past
  the end of the queue and throws.
\<close>

theorem submission_past_queue_end:
  "map_sum id (\<lambda>w. (stage (ui w), length (questions (ui w)), currentQuestion (ui w),
                    length (responses (ui w))))
     (run (nine_answers ''4'' @ [(AnswerSubmit, rate_limited_confirmatory)]) mounted_page)
     = Inr (Stage_main_test, 10, 9, 10)
   \<and> map_sum id (\<lambda>w. (stage (ui w), length (questions (ui w)), currentQuestion (ui w),
                      length (responses (ui w))))
       (run (nine_answers ''4'' @ [(AnswerSubmit, rate_limited_confirmatory)]
             @ answer ''4'' provider) mounted_page)
       = Inr (Stage_main_test, 10, 10, 11)
   \<and> run (nine_answers ''4'' @ [(AnswerSubmit, rate_limited_confirmatory)]
          @ answer ''4'' provider @ answer ''4'' provider) mounted_page
       = Inl TypeError"
  by (simp add: run_append nine_answers_run trim_digit)
     (simp add: world_defs handler_defs detect_defs grade_nine)

end
